theory Spec2Isabelle
  imports Main "HOL-Library.Word"
begin

section \<open>The colord client library: libcolord/cd-client.c\<close>

text \<open>
  The client talks to the colord daemon through a GDBusProxy. Everything the C file does
  beyond returning a value is explicit here: the GObject heap with its reference counts,
  the process-wide pointer \<open>cd_client_object\<close>, and the trace of the calls that left
  the process. The bus and the daemon behind it are a parameter (\<open>env\<close>) whose answers
  may depend on everything that was sent before.
\<close>

subsection \<open>Values that cross the bus\<close>

text \<open>The GVariant shapes the file builds or takes apart: "(s)", "(su)" and "(o)".\<close>

datatype gvariant =
    GString string
  | GUInt32 "32 word"
  | GObjectPath string
  | GTuple "gvariant list"

text \<open>The two proxy classes the file instantiates: CdDevice and CdProfile.\<close>

datatype handle_kind = CdDevice | CdProfile

text \<open>
  What leaves the process: creating the proxy to the daemon
  (\<open>g_dbus_proxy_new_for_bus_sync\<close>), a method call on it (\<open>g_dbus_proxy_call_sync\<close>
  with the method name and the parameters, NULL being \<open>None\<close>), and the binding of a
  handle to an object path (\<open>cd_device_set_object_path_sync\<close>,
  \<open>cd_profile_set_object_path_sync\<close>).
\<close>

datatype event =
    ProxyNew
  | ProxyCall string "gvariant option"
  | SetObjectPath handle_kind string

text \<open>A GDBusProxy, as far as the client reads it: its cached string properties.\<close>

record GDBusProxy =
  cached_properties :: "(string \<times> string) list"

definition g_dbus_proxy_get_cached_property :: "GDBusProxy \<Rightarrow> string \<Rightarrow> string option" where
  "g_dbus_proxy_get_cached_property p name = map_of (cached_properties p) name"

subsection \<open>Errors\<close>

text \<open>
  A GError as the callers of this file can receive one. \<open>CD_CLIENT_ERROR_FAILED\<close> is the
  only code \<open>g_set_error\<close> is called with in cd-client.c (domain \<open>CD_CLIENT_ERROR\<close>);
  it is what the spec calls RequestFailed (and, in connect, ConnectionFailed).
  \<open>BindFailed\<close> is the error a failed binding of a handle sets; the binding is not
  part of the sources and its error is taken from the spec's list of error kinds.
\<close>

datatype gerror =
    CD_CLIENT_ERROR_FAILED string
  | BindFailed string

fun message :: "gerror \<Rightarrow> string" where
  "message (CD_CLIENT_ERROR_FAILED m) = m"
| "message (BindFailed m) = m"

text \<open>
  The ways an entry point returns its failure value (NULL or FALSE).
  The first three are the \<open>g_return_val_if_fail\<close> guards, which return without setting
  a GError: \<open>CD_IS_CLIENT (client)\<close>, \<open>client->priv->proxy != NULL\<close> and, in connect,
  \<open>client->priv->proxy == NULL\<close>. \<open>Failed\<close> carries the GError that was set.
\<close>

datatype failure =
    NotAClient
  | NotConnected
  | AlreadyConnected
  | Failed gerror

subsection \<open>Objects\<close>

text \<open>\<open>struct _CdClientPrivate\<close>: NULL pointers are \<open>None\<close>.\<close>

record CdClientPrivate =
  proxy :: "GDBusProxy option"
  daemon_version :: "string option"

text \<open>
  Modelled from the spec: the property snapshot a binding fetches for a handle (the
  attributes of an ObjectHandle: id, kind, title, and for profiles filename and
  qualifier; cd-profile.h declares their getters, cd-device.c and cd-profile.c are not
  part of the sources).
\<close>

record cd_properties =
  prop_id :: string
  prop_kind :: string
  prop_title :: string
  prop_filename :: "string option"
  prop_qualifier :: "string option"

text \<open>
  Modelled from the spec: the private data of CdDevice and CdProfile (cd-device.c and
  cd-profile.c are not part of the sources): the remote object path, absent until the
  handle is bound, and the cached property snapshot.
\<close>

record handle =
  h_kind :: handle_kind
  h_object_path :: "string option"
  h_properties :: "cd_properties option"

text \<open>
  Modelled from the spec: the bound state of a handle (no accessor for it is part of
  the sources). A handle is bound once a binding has stored its object path.
\<close>

definition bound :: "handle \<Rightarrow> bool" where
  "bound h = (h_object_path h \<noteq> None)"

datatype payload = ClientObj CdClientPrivate | HandleObj handle

record gobject =
  ref_count :: nat
  payload :: payload

text \<open>
  The heap is indexed by address; a finalized object leaves \<open>None\<close> behind, so an address
  is never reused. \<open>cd_client_object\<close> is the file-level static of the same name.
\<close>

record world =
  heap :: "gobject option list"
  cd_client_object :: "nat option"
  trace :: "event list"

definition world_init :: world where
  "world_init = \<lparr>heap = [], cd_client_object = None, trace = []\<rparr>"

definition obj_at :: "world \<Rightarrow> nat \<Rightarrow> gobject option" where
  "obj_at w a = (if a < length (heap w) then heap w ! a else None)"

definition client_priv :: "world \<Rightarrow> nat \<Rightarrow> CdClientPrivate option" where
  "client_priv w a =
     (case obj_at w a of
        None \<Rightarrow> None
      | Some ob \<Rightarrow> (case payload ob of ClientObj p \<Rightarrow> Some p | HandleObj _ \<Rightarrow> None))"

definition handle_at :: "world \<Rightarrow> nat \<Rightarrow> handle option" where
  "handle_at w a =
     (case obj_at w a of
        None \<Rightarrow> None
      | Some ob \<Rightarrow> (case payload ob of HandleObj h \<Rightarrow> Some h | ClientObj _ \<Rightarrow> None))"

definition set_payload :: "nat \<Rightarrow> payload \<Rightarrow> world \<Rightarrow> world" where
  "set_payload a pl w =
     (case obj_at w a of
        None \<Rightarrow> w
      | Some ob \<Rightarrow> w\<lparr>heap := (heap w)[a := Some (ob\<lparr>payload := pl\<rparr>)]\<rparr>)"

subsection \<open>GObject reference counting\<close>

definition g_object_new :: "payload \<Rightarrow> world \<Rightarrow> nat \<times> world" where
  "g_object_new pl w =
     (length (heap w), w\<lparr>heap := heap w @ [Some \<lparr>ref_count = 1, payload = pl\<rparr>]\<rparr>)"

definition g_object_ref :: "nat \<Rightarrow> world \<Rightarrow> world" where
  "g_object_ref a w =
     (case obj_at w a of
        None \<Rightarrow> w
      | Some ob \<Rightarrow> w\<lparr>heap := (heap w)[a := Some (ob\<lparr>ref_count := ref_count ob + 1\<rparr>)]\<rparr>)"

text \<open>
  Dropping the last reference finalizes the object. The only weak pointer the file
  registers is \<open>g_object_add_weak_pointer (cd_client_object, &cd_client_object)\<close>, so
  finalizing the object the static points to resets the static to NULL.
  (\<open>cd_client_finalize\<close> frees the version string and drops the proxy, which are values
  here.)
\<close>

definition g_object_unref :: "nat \<Rightarrow> world \<Rightarrow> world" where
  "g_object_unref a w =
     (case obj_at w a of
        None \<Rightarrow> w
      | Some ob \<Rightarrow>
          if ref_count ob \<le> 1
          then w\<lparr>heap := (heap w)[a := None],
                 cd_client_object :=
                   (if cd_client_object w = Some a then None else cd_client_object w)\<rparr>
          else w\<lparr>heap := (heap w)[a := Some (ob\<lparr>ref_count := ref_count ob - 1\<rparr>)]\<rparr>)"

text \<open>
  A GPtrArray created with \<open>g_ptr_array_new_with_free_func (g_object_unref)\<close>: its own
  reference count and the addresses it holds. Dropping its last reference runs the free
  function on every element.
\<close>

record gptr_array =
  refs :: nat
  pdata :: "nat list"

definition g_ptr_array_new_with_free_func :: gptr_array where
  "g_ptr_array_new_with_free_func = \<lparr>refs = 1, pdata = []\<rparr>"

definition g_ptr_array_add :: "gptr_array \<Rightarrow> nat \<Rightarrow> gptr_array" where
  "g_ptr_array_add arr a = arr\<lparr>pdata := pdata arr @ [a]\<rparr>"

definition g_ptr_array_ref :: "gptr_array \<Rightarrow> gptr_array" where
  "g_ptr_array_ref arr = arr\<lparr>refs := refs arr + 1\<rparr>"

definition g_ptr_array_unref :: "gptr_array \<Rightarrow> world \<Rightarrow> gptr_array \<times> world" where
  "g_ptr_array_unref arr w =
     (arr\<lparr>refs := refs arr - 1\<rparr>,
      if refs arr \<le> 1 then fold g_object_unref (pdata arr) w else w)"

subsection \<open>The bus\<close>

text \<open>
  The daemon's side. Each answer is either the message of the GError the GDBus call
  sets (\<open>Inl\<close>) or the reply (\<open>Inr\<close>), and may depend on the trace so far. Replies have
  the signature the daemon's interface declares for the method, so they are typed here:
  "(ao)" for the list methods, "(o)" for create and find, "()" for delete.
  \<open>cd_device_kind_to_string\<close> (cd-enum.c) is not part of the sources and is a parameter;
  a \<open>CdDeviceKind\<close> is the C enum's number.
\<close>

record env =
  proxy_new_for_bus :: "event list \<Rightarrow> string + GDBusProxy"
  call_paths :: "event list \<Rightarrow> string \<Rightarrow> gvariant option \<Rightarrow> string + string list"
  call_path :: "event list \<Rightarrow> string \<Rightarrow> gvariant option \<Rightarrow> string + string"
  call_empty :: "event list \<Rightarrow> string \<Rightarrow> gvariant option \<Rightarrow> string + unit"
  fetch_properties :: "event list \<Rightarrow> handle_kind \<Rightarrow> string \<Rightarrow> string + cd_properties"
  cd_device_kind_to_string :: "nat \<Rightarrow> string"

definition g_dbus_proxy_new_for_bus_sync :: "env \<Rightarrow> world \<Rightarrow> (string + GDBusProxy) \<times> world" where
  "g_dbus_proxy_new_for_bus_sync e w =
     (proxy_new_for_bus e (trace w), w\<lparr>trace := trace w @ [ProxyNew]\<rparr>)"

definition call_sync_ao ::
  "env \<Rightarrow> string \<Rightarrow> gvariant option \<Rightarrow> world \<Rightarrow> (string + string list) \<times> world" where
  "call_sync_ao e method params w =
     (call_paths e (trace w) method params, w\<lparr>trace := trace w @ [ProxyCall method params]\<rparr>)"

definition call_sync_o ::
  "env \<Rightarrow> string \<Rightarrow> gvariant option \<Rightarrow> world \<Rightarrow> (string + string) \<times> world" where
  "call_sync_o e method params w =
     (call_path e (trace w) method params, w\<lparr>trace := trace w @ [ProxyCall method params]\<rparr>)"

definition call_sync_empty ::
  "env \<Rightarrow> string \<Rightarrow> gvariant option \<Rightarrow> world \<Rightarrow> (string + unit) \<times> world" where
  "call_sync_empty e method params w =
     (call_empty e (trace w) method params, w\<lparr>trace := trace w @ [ProxyCall method params]\<rparr>)"

subsection \<open>Handles and their binding\<close>

text \<open>
  Modelled from the spec: the constructor of a handle, common to \<open>cd_device_new\<close> and
  \<open>cd_profile_new\<close> (cd-device.c and cd-profile.c are not part of the sources). A
  handle is created in the unbound state, with one reference, held by its creator.
\<close>

definition new_handle :: "handle_kind \<Rightarrow> world \<Rightarrow> nat \<times> world" where
  "new_handle k w =
     g_object_new (HandleObj \<lparr>h_kind = k, h_object_path = None, h_properties = None\<rparr>) w"

text \<open>
  Modelled from the spec: \<open>cd_device_new\<close> (cd-device.c is not part of the sources),
  the instance of \<open>new_handle\<close> for devices.
\<close>

definition cd_device_new :: "world \<Rightarrow> nat \<times> world" where
  "cd_device_new = new_handle CdDevice"

text \<open>
  Modelled from the spec: \<open>cd_profile_new\<close> (cd-profile.c is not part of the sources;
  cd-profile.h declares it), the instance of \<open>new_handle\<close> for profiles.
\<close>

definition cd_profile_new :: "world \<Rightarrow> nat \<times> world" where
  "cd_profile_new = new_handle CdProfile"

text \<open>
  Modelled from the spec: the binding of a handle to an object path, common to
  \<open>cd_device_set_object_path_sync\<close> and \<open>cd_profile_set_object_path_sync\<close>
  (cd-device.c and cd-profile.c are not part of the sources; cd-profile.h declares the
  latter). Binding fetches the property set of the remote object at the given path; on
  success it stores the path and the snapshot in the handle, which is then bound; it
  fails with BindFailed when the remote object does not exist or the fetch errors, and
  leaves the handle unbound. The result is the GError set, if any (\<open>None\<close> is TRUE).
\<close>

definition set_object_path_sync ::
  "env \<Rightarrow> handle_kind \<Rightarrow> nat \<Rightarrow> string \<Rightarrow> world \<Rightarrow> gerror option \<times> world" where
  "set_object_path_sync e k a path w =
     (let w1 = w\<lparr>trace := trace w @ [SetObjectPath k path]\<rparr>
      in case fetch_properties e (trace w) k path of
           Inl msg \<Rightarrow> (Some (BindFailed msg), w1)
         | Inr ps \<Rightarrow>
             (None,
              set_payload a
                (HandleObj \<lparr>h_kind = k, h_object_path = Some path, h_properties = Some ps\<rparr>) w1))"

text \<open>
  Modelled from the spec: \<open>cd_device_set_object_path_sync\<close> (cd-device.c is not part
  of the sources), the binding of a device.
\<close>

definition cd_device_set_object_path_sync ::
  "env \<Rightarrow> nat \<Rightarrow> string \<Rightarrow> world \<Rightarrow> gerror option \<times> world" where
  "cd_device_set_object_path_sync e = set_object_path_sync e CdDevice"

text \<open>
  Modelled from the spec: \<open>cd_profile_set_object_path_sync\<close> (cd-profile.c is not
  part of the sources), the binding of a profile.
\<close>

definition cd_profile_set_object_path_sync ::
  "env \<Rightarrow> nat \<Rightarrow> string \<Rightarrow> world \<Rightarrow> gerror option \<times> world" where
  "cd_profile_set_object_path_sync e = set_object_path_sync e CdProfile"

subsection \<open>Construction and connection\<close>

text \<open>\<open>cd_client_init\<close>: the private data starts zeroed.\<close>

definition cd_client_init :: CdClientPrivate where
  "cd_client_init = \<lparr>proxy = None, daemon_version = None\<rparr>"

definition cd_client_new :: "world \<Rightarrow> nat \<times> world" where
  "cd_client_new w =
     (case cd_client_object w of
        Some a \<Rightarrow> (a, g_object_ref a w)
      | None \<Rightarrow>
          (let (a, w1) = g_object_new (ClientObj cd_client_init) w
           in (a, w1\<lparr>cd_client_object := Some a\<rparr>)))"

text \<open>
  \<open>cd_client_connect_sync\<close>. A failed \<open>g_dbus_proxy_new_for_bus_sync\<close> stores NULL
  in \<open>priv->proxy\<close>, which it held already. The property read for the version is the one
  named "Title". \<open>g_signal_connect\<close> attaches \<open>cd_client_dbus_signal_cb\<close>, modelled
  below as a function of the frame.
\<close>

definition cd_client_connect_sync :: "env \<Rightarrow> nat \<Rightarrow> world \<Rightarrow> (failure + unit) \<times> world" where
  "cd_client_connect_sync e client w =
     (case client_priv w client of
        None \<Rightarrow> (Inl NotAClient, w)
      | Some priv \<Rightarrow>
          (case proxy priv of
             Some _ \<Rightarrow> (Inl AlreadyConnected, w)
           | None \<Rightarrow>
               (case g_dbus_proxy_new_for_bus_sync e w of
                  (Inl msg, w1) \<Rightarrow>
                    (Inl (Failed (CD_CLIENT_ERROR_FAILED (''Failed to connect to colord: '' @ msg))),
                     w1)
                | (Inr p, w1) \<Rightarrow>
                    (let priv1 = priv\<lparr>proxy := Some p\<rparr>;
                         priv2 = (case g_dbus_proxy_get_cached_property p ''Title'' of
                                    Some v \<Rightarrow> priv1\<lparr>daemon_version := Some v\<rparr>
                                  | None \<Rightarrow> priv1)
                     in (Inr (), set_payload client (ClientObj priv2) w1)))))"

definition cd_client_get_daemon_version ::
  "nat \<Rightarrow> world \<Rightarrow> (failure + string option) \<times> world" where
  "cd_client_get_daemon_version client w =
     (case client_priv w client of
        None \<Rightarrow> (Inl NotAClient, w)
      | Some priv \<Rightarrow> (Inr (daemon_version priv), w))"

subsection \<open>Turning replies into handles\<close>

text \<open>
  The for-loop of \<open>cd_client_get_device_array_from_variant\<close> and of
  \<open>cd_client_get_profile_array_from_variant\<close>, which differ in the class of the handle
  and in the text of the message. It returns the error set (if any), \<open>array_tmp\<close> and
  the world at the label \<open>out\<close>.
\<close>

fun array_from_variant_loop ::
  "env \<Rightarrow> handle_kind \<Rightarrow> string \<Rightarrow> string list \<Rightarrow> gptr_array \<Rightarrow> world
     \<Rightarrow> gerror option \<times> gptr_array \<times> world" where
  "array_from_variant_loop e k what [] array_tmp w = (None, array_tmp, w)"
| "array_from_variant_loop e k what (object_path_tmp # rest) array_tmp w =
     (let (obj, w1) = new_handle k w;
          (ret, w2) = set_object_path_sync e k obj object_path_tmp w1
      in case ret of
           Some error_local \<Rightarrow>
             (Some (CD_CLIENT_ERROR_FAILED (what @ message error_local)),
              array_tmp, g_object_unref obj w2)
         | None \<Rightarrow>
             array_from_variant_loop e k what rest (g_ptr_array_add array_tmp obj) w2)"

definition array_from_variant ::
  "env \<Rightarrow> handle_kind \<Rightarrow> string \<Rightarrow> string list \<Rightarrow> world \<Rightarrow> (failure + gptr_array) \<times> world" where
  "array_from_variant e k what result w =
     (let (err, array_tmp, w1) =
            array_from_variant_loop e k what result g_ptr_array_new_with_free_func w
      in case err of
           Some error \<Rightarrow> (Inl (Failed error), snd (g_ptr_array_unref array_tmp w1))
         | None \<Rightarrow>
             (let array = g_ptr_array_ref array_tmp;
                  (array_out, w2) = g_ptr_array_unref array w1
              in (Inr array_out, w2)))"

definition cd_client_get_device_array_from_variant ::
  "env \<Rightarrow> string list \<Rightarrow> world \<Rightarrow> (failure + gptr_array) \<times> world" where
  "cd_client_get_device_array_from_variant e =
     array_from_variant e CdDevice ''Failed to set device object path: ''"

definition cd_client_get_profile_array_from_variant ::
  "env \<Rightarrow> string list \<Rightarrow> world \<Rightarrow> (failure + gptr_array) \<times> world" where
  "cd_client_get_profile_array_from_variant e =
     array_from_variant e CdProfile ''Failed to set profile object path: ''"

text \<open>
  The tail shared by create and find: "create thick object". The handle is created,
  bound with the caller's \<open>error\<close> (so a bind error reaches the caller as it is),
  referenced on success and unreferenced at \<open>out\<close>.
\<close>

definition handle_from_path ::
  "env \<Rightarrow> handle_kind \<Rightarrow> string \<Rightarrow> world \<Rightarrow> (failure + nat) \<times> world" where
  "handle_from_path e k object_path w =
     (let (tmp, w1) = new_handle k w;
          (ret, w2) = set_object_path_sync e k tmp object_path w1
      in case ret of
           Some error \<Rightarrow> (Inl (Failed error), g_object_unref tmp w2)
         | None \<Rightarrow> (Inr tmp, g_object_unref tmp (g_object_ref tmp w2)))"

subsection \<open>The call surface\<close>

definition cd_client_get_devices_sync ::
  "env \<Rightarrow> nat \<Rightarrow> world \<Rightarrow> (failure + gptr_array) \<times> world" where
  "cd_client_get_devices_sync e client w =
     (case client_priv w client of
        None \<Rightarrow> (Inl NotAClient, w)
      | Some priv \<Rightarrow>
          (case proxy priv of
             None \<Rightarrow> (Inl NotConnected, w)
           | Some _ \<Rightarrow>
               (case call_sync_ao e ''GetDevices'' None w of
                  (Inl msg, w1) \<Rightarrow>
                    (Inl (Failed (CD_CLIENT_ERROR_FAILED (''Failed to GetDevices: '' @ msg))), w1)
                | (Inr result, w1) \<Rightarrow> cd_client_get_device_array_from_variant e result w1)))"

definition cd_client_get_devices_by_kind_sync ::
  "env \<Rightarrow> nat \<Rightarrow> nat \<Rightarrow> world \<Rightarrow> (failure + gptr_array) \<times> world" where
  "cd_client_get_devices_by_kind_sync e client kind w =
     (case client_priv w client of
        None \<Rightarrow> (Inl NotAClient, w)
      | Some priv \<Rightarrow>
          (case proxy priv of
             None \<Rightarrow> (Inl NotConnected, w)
           | Some _ \<Rightarrow>
               (case call_sync_ao e ''GetDevicesByKind''
                       (Some (GTuple [GString (cd_device_kind_to_string e kind)])) w of
                  (Inl msg, w1) \<Rightarrow>
                    (Inl (Failed (CD_CLIENT_ERROR_FAILED (''Failed to GetDevicesByKind: '' @ msg))),
                     w1)
                | (Inr result, w1) \<Rightarrow> cd_client_get_device_array_from_variant e result w1)))"

definition cd_client_get_profiles_sync ::
  "env \<Rightarrow> nat \<Rightarrow> world \<Rightarrow> (failure + gptr_array) \<times> world" where
  "cd_client_get_profiles_sync e client w =
     (case client_priv w client of
        None \<Rightarrow> (Inl NotAClient, w)
      | Some priv \<Rightarrow>
          (case proxy priv of
             None \<Rightarrow> (Inl NotConnected, w)
           | Some _ \<Rightarrow>
               (case call_sync_ao e ''GetProfiles'' None w of
                  (Inl msg, w1) \<Rightarrow>
                    (Inl (Failed (CD_CLIENT_ERROR_FAILED (''Failed to GetProfiles: '' @ msg))), w1)
                | (Inr result, w1) \<Rightarrow> cd_client_get_profile_array_from_variant e result w1)))"

definition cd_client_create_device_sync ::
  "env \<Rightarrow> nat \<Rightarrow> string \<Rightarrow> 32 word \<Rightarrow> world \<Rightarrow> (failure + nat) \<times> world" where
  "cd_client_create_device_sync e client ident options w =
     (case client_priv w client of
        None \<Rightarrow> (Inl NotAClient, w)
      | Some priv \<Rightarrow>
          (case proxy priv of
             None \<Rightarrow> (Inl NotConnected, w)
           | Some _ \<Rightarrow>
               (case call_sync_o e ''CreateDevice''
                       (Some (GTuple [GString ident, GUInt32 options])) w of
                  (Inl msg, w1) \<Rightarrow>
                    (Inl (Failed (CD_CLIENT_ERROR_FAILED (''Failed to CreateDevice: '' @ msg))), w1)
                | (Inr object_path, w1) \<Rightarrow> handle_from_path e CdDevice object_path w1)))"

definition cd_client_create_profile_sync ::
  "env \<Rightarrow> nat \<Rightarrow> string \<Rightarrow> 32 word \<Rightarrow> world \<Rightarrow> (failure + nat) \<times> world" where
  "cd_client_create_profile_sync e client ident options w =
     (case client_priv w client of
        None \<Rightarrow> (Inl NotAClient, w)
      | Some priv \<Rightarrow>
          (case proxy priv of
             None \<Rightarrow> (Inl NotConnected, w)
           | Some _ \<Rightarrow>
               (case call_sync_o e ''CreateProfile''
                       (Some (GTuple [GString ident, GUInt32 options])) w of
                  (Inl msg, w1) \<Rightarrow>
                    (Inl (Failed (CD_CLIENT_ERROR_FAILED (''Failed to CreateProfile: '' @ msg))), w1)
                | (Inr object_path, w1) \<Rightarrow> handle_from_path e CdProfile object_path w1)))"

definition cd_client_delete_device_sync ::
  "env \<Rightarrow> nat \<Rightarrow> string \<Rightarrow> world \<Rightarrow> (failure + unit) \<times> world" where
  "cd_client_delete_device_sync e client ident w =
     (case client_priv w client of
        None \<Rightarrow> (Inl NotAClient, w)
      | Some priv \<Rightarrow>
          (case proxy priv of
             None \<Rightarrow> (Inl NotConnected, w)
           | Some _ \<Rightarrow>
               (case call_sync_empty e ''DeleteDevice'' (Some (GTuple [GString ident])) w of
                  (Inl msg, w1) \<Rightarrow>
                    (Inl (Failed (CD_CLIENT_ERROR_FAILED (''Failed to DeleteDevice: '' @ msg))), w1)
                | (Inr _, w1) \<Rightarrow> (Inr (), w1))))"

definition cd_client_delete_profile_sync ::
  "env \<Rightarrow> nat \<Rightarrow> string \<Rightarrow> world \<Rightarrow> (failure + unit) \<times> world" where
  "cd_client_delete_profile_sync e client ident w =
     (case client_priv w client of
        None \<Rightarrow> (Inl NotAClient, w)
      | Some priv \<Rightarrow>
          (case proxy priv of
             None \<Rightarrow> (Inl NotConnected, w)
           | Some _ \<Rightarrow>
               (case call_sync_empty e ''DeleteProfile'' (Some (GTuple [GString ident])) w of
                  (Inl msg, w1) \<Rightarrow>
                    (Inl (Failed (CD_CLIENT_ERROR_FAILED (''Failed to DeleteProfile: '' @ msg))), w1)
                | (Inr _, w1) \<Rightarrow> (Inr (), w1))))"

definition cd_client_find_device_sync ::
  "env \<Rightarrow> nat \<Rightarrow> string \<Rightarrow> world \<Rightarrow> (failure + nat) \<times> world" where
  "cd_client_find_device_sync e client ident w =
     (case client_priv w client of
        None \<Rightarrow> (Inl NotAClient, w)
      | Some priv \<Rightarrow>
          (case proxy priv of
             None \<Rightarrow> (Inl NotConnected, w)
           | Some _ \<Rightarrow>
               (case call_sync_o e ''FindDeviceById'' (Some (GTuple [GString ident])) w of
                  (Inl msg, w1) \<Rightarrow>
                    (Inl (Failed (CD_CLIENT_ERROR_FAILED (''Failed to FindDeviceById: '' @ msg))),
                     w1)
                | (Inr object_path, w1) \<Rightarrow> handle_from_path e CdDevice object_path w1)))"

definition cd_client_find_profile_sync ::
  "env \<Rightarrow> nat \<Rightarrow> string \<Rightarrow> world \<Rightarrow> (failure + nat) \<times> world" where
  "cd_client_find_profile_sync e client ident w =
     (case client_priv w client of
        None \<Rightarrow> (Inl NotAClient, w)
      | Some priv \<Rightarrow>
          (case proxy priv of
             None \<Rightarrow> (Inl NotConnected, w)
           | Some _ \<Rightarrow>
               (case call_sync_o e ''FindProfileById'' (Some (GTuple [GString ident])) w of
                  (Inl msg, w1) \<Rightarrow>
                    (Inl (Failed (CD_CLIENT_ERROR_FAILED (''Failed to FindProfileById: '' @ msg))),
                     w1)
                | (Inr object_path, w1) \<Rightarrow> handle_from_path e CdProfile object_path w1)))"

subsection \<open>Signals from the daemon\<close>

text \<open>
  Modelled from the spec: the events delivered to observers (the tagged variant of the
  spec's data model; the file itself registers the GObject signals changed,
  device-added and device-removed and has no emission to take a type from).
\<close>

datatype signal_event =
    Changed
  | DeviceAdded string
  | DeviceRemoved string
  | ProfileAdded string
  | ProfileRemoved string

text \<open>
  What one run of \<open>cd_client_dbus_signal_cb\<close> does: the events it emits and the
  warnings it logs with \<open>g_warning\<close>.
\<close>

record signal_effects =
  emitted :: "signal_event list"
  warnings :: "string list"

text \<open>\<open>g_variant_get (parameters, "(o)", &object_path_tmp)\<close>.\<close>

fun variant_get_o :: "gvariant \<Rightarrow> string option" where
  "variant_get_o (GTuple [GObjectPath p]) = Some p"
| "variant_get_o _ = None"

text \<open>
  Each of the four branches with a path extracts it into \<open>object_path_tmp\<close>, reaches the
  comment \<open>//EMIT\<close> and falls through to \<open>g_free\<close>: nothing is emitted.
\<close>

definition cd_client_dbus_signal_cb :: "string \<Rightarrow> gvariant \<Rightarrow> signal_effects" where
  "cd_client_dbus_signal_cb signal_name parameters =
     (if signal_name = ''Changed'' then \<lparr>emitted = [], warnings = [''changed'']\<rparr>
      else if signal_name = ''DeviceAdded'' then
        (let object_path_tmp = variant_get_o parameters in \<lparr>emitted = [], warnings = []\<rparr>)
      else if signal_name = ''DeviceRemoved'' then
        (let object_path_tmp = variant_get_o parameters in \<lparr>emitted = [], warnings = []\<rparr>)
      else if signal_name = ''ProfileAdded'' then
        (let object_path_tmp = variant_get_o parameters in \<lparr>emitted = [], warnings = []\<rparr>)
      else if signal_name = ''ProfileRemoved'' then
        (let object_path_tmp = variant_get_o parameters in \<lparr>emitted = [], warnings = []\<rparr>)
      else \<lparr>emitted = [],
             warnings = [''unhandled signal '' @ [CHR 0x27] @ signal_name @ [CHR 0x27]]\<rparr>)"

subsection \<open>What the daemon answers to a run of bindings\<close>

text \<open>
  The answers the daemon gives when the paths of a reply are bound one after the other,
  starting from the trace \<open>tr\<close>: each binding is itself recorded in the trace before
  the next one is made. \<open>first_bind_failure\<close> says that the binding of element \<open>n\<close>
  (counted from 0) is the first one to fail, with message \<open>m\<close>. \<open>bound_cell\<close> is the
  heap cell of a bound handle with a single owner.
\<close>

fun bind_answers ::
  "env \<Rightarrow> handle_kind \<Rightarrow> event list \<Rightarrow> string list \<Rightarrow> (string + cd_properties) list" where
  "bind_answers e k tr [] = []"
| "bind_answers e k tr (p # ps) =
     fetch_properties e tr k p # bind_answers e k (tr @ [SetObjectPath k p]) ps"

definition first_bind_failure ::
  "env \<Rightarrow> handle_kind \<Rightarrow> event list \<Rightarrow> string list \<Rightarrow> nat \<Rightarrow> string \<Rightarrow> bool" where
  "first_bind_failure e k tr paths n m \<longleftrightarrow>
     n < length paths
     \<and> list_all (\<lambda>r. \<not> isl r) (take n (bind_answers e k tr paths))
     \<and> bind_answers e k tr paths ! n = Inl m"

definition bound_cell :: "handle_kind \<Rightarrow> string \<Rightarrow> cd_properties \<Rightarrow> gobject option" where
  "bound_cell k path ps =
     Some \<lparr>ref_count = 1,
           payload = HandleObj \<lparr>h_kind = k, h_object_path = Some path, h_properties = Some ps\<rparr>\<rparr>"

subsection \<open>A sample daemon\<close>

text \<open>
  A daemon for concrete runs: the root object has no cached properties, the list
  methods answer two paths, create and find answer one path, delete answers an error,
  and every object but \<open>/org/gone\<close> can be bound.
\<close>

definition quiet_env :: env where
  "quiet_env =
     \<lparr>proxy_new_for_bus = (\<lambda>tr. Inr \<lparr>cached_properties = []\<rparr>),
      call_paths = (\<lambda>tr method params. Inr [''/org/d1'', ''/org/d2'']),
      call_path = (\<lambda>tr method params. Inr ''/org/d1''),
      call_empty = (\<lambda>tr method params. Inl ''no such profile''),
      fetch_properties = (\<lambda>tr k path.
         if path = ''/org/gone'' then Inl ''no such object''
         else Inr \<lparr>prop_id = path, prop_kind = ''display'', prop_title = ''t'',
                   prop_filename = None, prop_qualifier = None\<rparr>),
      cd_device_kind_to_string = (\<lambda>kind. ''display'')\<rparr>"

definition fresh_world :: world where
  "fresh_world = snd (cd_client_new world_init)"

definition connected_world :: world where
  "connected_world = snd (cd_client_connect_sync quiet_env 0 fresh_world)"

text \<open>The same daemon with a reply that names an object that cannot be bound.\<close>

definition lossy_env :: env where
  "lossy_env =
     quiet_env\<lparr>call_paths := (\<lambda>tr method params. Inr [''/org/d1'', ''/org/gone'', ''/org/d2'']),
               call_path := (\<lambda>tr method params. Inr ''/org/gone'')\<rparr>"

section \<open>Properties\<close>

subsection \<open>Basic facts about the heap\<close>

lemma obj_at_trace_update [simp]: "obj_at (w\<lparr>trace := t\<rparr>) a = obj_at w a"
  by (simp add: obj_at_def)

lemma client_priv_trace_update [simp]: "client_priv (w\<lparr>trace := t\<rparr>) a = client_priv w a"
  by (simp add: client_priv_def)

lemma client_priv_set_payload:
  assumes "client_priv w a = Some priv"
  shows "client_priv (set_payload a (ClientObj q) w) a = Some q"
  using assms
  by (auto simp: client_priv_def set_payload_def obj_at_def split: option.splits if_splits)

subsection \<open>The sample worlds\<close>

lemma fresh_world_eq:
  "fresh_world = \<lparr>heap = [Some \<lparr>ref_count = 1, payload = ClientObj cd_client_init\<rparr>],
                   cd_client_object = Some 0, trace = []\<rparr>"
  by (simp add: fresh_world_def cd_client_new_def world_init_def g_object_new_def)

lemma connected_world_eq:
  "connected_world =
     \<lparr>heap = [Some \<lparr>ref_count = 1,
                payload = ClientObj \<lparr>proxy = Some \<lparr>cached_properties = []\<rparr>, daemon_version = None\<rparr>\<rparr>],
      cd_client_object = Some 0, trace = [ProxyNew]\<rparr>"
  by (simp add: connected_world_def fresh_world_eq cd_client_connect_sync_def client_priv_def
      obj_at_def cd_client_init_def g_dbus_proxy_new_for_bus_sync_def quiet_env_def
      g_dbus_proxy_get_cached_property_def set_payload_def)

lemma connected_world_priv:
  "client_priv connected_world 0 =
     Some \<lparr>proxy = Some \<lparr>cached_properties = []\<rparr>, daemon_version = None\<rparr>"
  by (simp add: connected_world_eq client_priv_def obj_at_def)

lemma fresh_world_priv: "client_priv fresh_world 0 = Some cd_client_init"
  by (simp add: fresh_world_eq client_priv_def obj_at_def)

subsection \<open>Connecting twice\<close>

lemma connect_success_sets_proxy:
  assumes "cd_client_connect_sync e client w = (Inr (), w')"
  shows "\<exists>priv p. client_priv w' client = Some priv \<and> proxy priv = Some p"
proof -
  from assms obtain priv where priv: "client_priv w client = Some priv" "proxy priv = None"
    by (auto simp: cd_client_connect_sync_def split: option.splits)
  from assms priv obtain p where p: "proxy_new_for_bus e (trace w) = Inr p"
    by (auto simp: cd_client_connect_sync_def g_dbus_proxy_new_for_bus_sync_def split: sum.splits)
  from priv(1) have cp: "client_priv (w\<lparr>trace := trace w @ [ProxyNew]\<rparr>) client = Some priv"
    by simp
  show ?thesis
    using assms priv p client_priv_set_payload [OF cp]
    by (auto simp: cd_client_connect_sync_def g_dbus_proxy_new_for_bus_sync_def Let_def
        split: option.splits)
qed

lemma connect_failure_keeps_priv:
  assumes "fst (cd_client_connect_sync e client w) \<noteq> Inr ()"
  shows "client_priv (snd (cd_client_connect_sync e client w)) client = client_priv w client"
  using assms
  by (auto simp: cd_client_connect_sync_def g_dbus_proxy_new_for_bus_sync_def Let_def
      split: option.splits sum.splits)

lemma connect_when_connected:
  assumes "client_priv w client = Some priv" and "proxy priv = Some p"
  shows "cd_client_connect_sync e client w = (Inl AlreadyConnected, w)"
  using assms by (simp add: cd_client_connect_sync_def)

text \<open>
  C4. A client whose transport is set (as it is in the world a successful connect
  leaves behind) answers a further connect with AlreadyConnected, at the guard
  \<open>client->priv->proxy == NULL\<close>; the world, and with it the transport and the cached
  version, is left exactly as it was, and nothing is sent.
\<close>

theorem connect_twice_already_connected:
  "(\<forall>priv p. client_priv w client = Some priv \<and> proxy priv = Some p
      \<longrightarrow> cd_client_connect_sync e client w = (Inl AlreadyConnected, w))
   \<and> (\<forall>e0 w0. cd_client_connect_sync e0 client w0 = (Inr (), w)
      \<longrightarrow> cd_client_connect_sync e client w = (Inl AlreadyConnected, w))"
  using connect_when_connected connect_success_sets_proxy by blast

theorem connect_twice_already_connected_witness:
  "cd_client_connect_sync quiet_env 0 fresh_world = (Inr (), connected_world)
   \<and> client_priv connected_world 0 =
       Some \<lparr>proxy = Some \<lparr>cached_properties = []\<rparr>, daemon_version = None\<rparr>
   \<and> cd_client_connect_sync quiet_env 0 connected_world = (Inl AlreadyConnected, connected_world)"
proof -
  have first: "cd_client_connect_sync quiet_env 0 fresh_world = (Inr (), connected_world)"
    by (simp add: connected_world_def fresh_world_eq cd_client_connect_sync_def client_priv_def
        obj_at_def cd_client_init_def g_dbus_proxy_new_for_bus_sync_def quiet_env_def
        g_dbus_proxy_get_cached_property_def)
  from connect_twice_already_connected [of connected_world 0 quiet_env] first
  have "cd_client_connect_sync quiet_env 0 connected_world = (Inl AlreadyConnected, connected_world)"
    by blast
  with first connected_world_priv show ?thesis by simp
qed

subsection \<open>Deleting\<close>

lemma delete_profile_connected:
  assumes "client_priv w client = Some priv" and "proxy priv = Some p"
  shows "cd_client_delete_profile_sync e client ident w =
           ((case call_empty e (trace w) ''DeleteProfile'' (Some (GTuple [GString ident])) of
               Inl msg \<Rightarrow> Inl (Failed (CD_CLIENT_ERROR_FAILED (''Failed to DeleteProfile: '' @ msg)))
             | Inr u \<Rightarrow> Inr ()),
            w\<lparr>trace := trace w @ [ProxyCall ''DeleteProfile'' (Some (GTuple [GString ident]))]\<rparr>)"
  using assms
  by (simp add: cd_client_delete_profile_sync_def call_sync_empty_def split: sum.splits)

lemma delete_device_connected:
  assumes "client_priv w client = Some priv" and "proxy priv = Some p"
  shows "cd_client_delete_device_sync e client ident w =
           ((case call_empty e (trace w) ''DeleteDevice'' (Some (GTuple [GString ident])) of
               Inl msg \<Rightarrow> Inl (Failed (CD_CLIENT_ERROR_FAILED (''Failed to DeleteDevice: '' @ msg)))
             | Inr u \<Rightarrow> Inr ()),
            w\<lparr>trace := trace w @ [ProxyCall ''DeleteDevice'' (Some (GTuple [GString ident]))]\<rparr>)"
  using assms
  by (simp add: cd_client_delete_device_sync_def call_sync_empty_def split: sum.splits)

text \<open>
  C6. On a connected client, \<open>cd_client_delete_profile_sync\<close> returns success exactly
  when the remote call DeleteProfile comes back with a reply; when it comes back with
  an error, the result is the failure \<open>CD_CLIENT_ERROR_FAILED\<close> whose message carries
  the remote message. The function returns in both cases, and the client's private data,
  its transport included, is what it was. The same holds for
  \<open>cd_client_delete_device_sync\<close> and DeleteDevice.
\<close>

theorem delete_succeeds_iff_reply:
  assumes "client_priv w client = Some priv" and "proxy priv = Some p"
  shows "(fst (cd_client_delete_profile_sync e client ident w) = Inr ()
            \<longleftrightarrow> (\<exists>u. call_empty e (trace w) ''DeleteProfile'' (Some (GTuple [GString ident])) = Inr u))
       \<and> (\<forall>msg. call_empty e (trace w) ''DeleteProfile'' (Some (GTuple [GString ident])) = Inl msg
            \<longrightarrow> fst (cd_client_delete_profile_sync e client ident w) =
                  Inl (Failed (CD_CLIENT_ERROR_FAILED (''Failed to DeleteProfile: '' @ msg))))
       \<and> client_priv (snd (cd_client_delete_profile_sync e client ident w)) client = Some priv
       \<and> (fst (cd_client_delete_device_sync e client ident w) = Inr ()
            \<longleftrightarrow> (\<exists>u. call_empty e (trace w) ''DeleteDevice'' (Some (GTuple [GString ident])) = Inr u))
       \<and> (\<forall>msg. call_empty e (trace w) ''DeleteDevice'' (Some (GTuple [GString ident])) = Inl msg
            \<longrightarrow> fst (cd_client_delete_device_sync e client ident w) =
                  Inl (Failed (CD_CLIENT_ERROR_FAILED (''Failed to DeleteDevice: '' @ msg))))
       \<and> client_priv (snd (cd_client_delete_device_sync e client ident w)) client = Some priv"
  using assms
  by (auto simp: delete_profile_connected [OF assms] delete_device_connected [OF assms]
      split: sum.splits)

theorem delete_succeeds_iff_reply_witness:
  "client_priv connected_world 0 =
     Some \<lparr>proxy = Some \<lparr>cached_properties = []\<rparr>, daemon_version = None\<rparr>
   \<and> call_empty quiet_env (trace connected_world) ''DeleteProfile''
        (Some (GTuple [GString ''icc-001''])) = Inl ''no such profile''
   \<and> fst (cd_client_delete_profile_sync quiet_env 0 ''icc-001'' connected_world) =
        Inl (Failed (CD_CLIENT_ERROR_FAILED ''Failed to DeleteProfile: no such profile''))
   \<and> client_priv (snd (cd_client_delete_profile_sync quiet_env 0 ''icc-001'' connected_world)) 0 =
        Some \<lparr>proxy = Some \<lparr>cached_properties = []\<rparr>, daemon_version = None\<rparr>"
proof -
  have c: "call_empty quiet_env (trace connected_world) ''DeleteProfile''
        (Some (GTuple [GString ''icc-001''])) = Inl ''no such profile''"
    by (simp add: quiet_env_def)
  from delete_succeeds_iff_reply [OF connected_world_priv, of _ quiet_env "''icc-001''"] c
  show ?thesis using connected_world_priv by simp
qed

subsection \<open>Before connect\<close>

text \<open>
  C3, as the code has it. On a client that is not connected, each of the nine calls
  that go to the daemon stops at the guard \<open>client->priv->proxy != NULL\<close>: it returns
  its failure value (NotConnected; the guard sets no GError) and leaves the world as it
  was, so nothing is sent. \<open>cd_client_get_daemon_version\<close> has no such guard: it returns
  the cached version, also without sending anything.
\<close>

theorem not_connected_guard:
  assumes "client_priv w client = Some priv" and "proxy priv = None"
  shows "cd_client_get_devices_sync e client w = (Inl NotConnected, w)
       \<and> cd_client_get_devices_by_kind_sync e client kind w = (Inl NotConnected, w)
       \<and> cd_client_get_profiles_sync e client w = (Inl NotConnected, w)
       \<and> cd_client_create_device_sync e client ident options w = (Inl NotConnected, w)
       \<and> cd_client_create_profile_sync e client ident options w = (Inl NotConnected, w)
       \<and> cd_client_delete_device_sync e client ident w = (Inl NotConnected, w)
       \<and> cd_client_delete_profile_sync e client ident w = (Inl NotConnected, w)
       \<and> cd_client_find_device_sync e client ident w = (Inl NotConnected, w)
       \<and> cd_client_find_profile_sync e client ident w = (Inl NotConnected, w)
       \<and> cd_client_get_daemon_version client w = (Inr (daemon_version priv), w)"
  using assms
  by (simp add: cd_client_get_devices_sync_def cd_client_get_devices_by_kind_sync_def
      cd_client_get_profiles_sync_def cd_client_create_device_sync_def
      cd_client_create_profile_sync_def cd_client_delete_device_sync_def
      cd_client_delete_profile_sync_def cd_client_find_device_sync_def
      cd_client_find_profile_sync_def cd_client_get_daemon_version_def)

theorem not_connected_guard_witness:
  "client_priv fresh_world 0 = Some cd_client_init \<and> proxy cd_client_init = None
   \<and> cd_client_get_devices_sync quiet_env 0 fresh_world = (Inl NotConnected, fresh_world)
   \<and> cd_client_find_profile_sync quiet_env 0 ''icc-001'' fresh_world = (Inl NotConnected, fresh_world)
   \<and> cd_client_get_daemon_version 0 fresh_world = (Inr None, fresh_world)"
proof -
  have p: "proxy cd_client_init = None" by (simp add: cd_client_init_def)
  from not_connected_guard [OF fresh_world_priv p, of quiet_env _ "''icc-001''"]
  show ?thesis using fresh_world_priv p by (simp add: cd_client_init_def)
qed

text \<open>
  The claim as stated for C3 counts \<open>daemon_version\<close> among the operations that fail
  with NotConnected. On a freshly constructed client it does not fail.
\<close>

theorem daemon_version_unconnected_counterexample:
  "client_priv fresh_world 0 = Some cd_client_init \<and> proxy cd_client_init = None
   \<and> fst (cd_client_get_daemon_version 0 fresh_world) \<noteq> Inl NotConnected"
  by (simp add: fresh_world_priv cd_client_get_daemon_version_def cd_client_init_def)

subsection \<open>Signals\<close>

lemma signal_cb_emits_nothing: "emitted (cd_client_dbus_signal_cb signal_name parameters) = []"
  by (simp add: cd_client_dbus_signal_cb_def)

text \<open>
  C7. A frame tagged DeviceAdded that carries the path
  \<open>/org/example/colord/devices/dev1\<close> makes the callback emit no event at all: the
  branch ends at the comment \<open>//EMIT\<close>.
\<close>

theorem signal_device_added_emits_nothing:
  "emitted (cd_client_dbus_signal_cb ''DeviceAdded''
              (GTuple [GObjectPath ''/org/example/colord/devices/dev1''])) = []"
  by (simp add: cd_client_dbus_signal_cb_def)

subsection \<open>Connecting without a version\<close>

lemma connect_unconnected_ok:
  assumes "client_priv w client = Some priv" and "proxy priv = None"
      and "proxy_new_for_bus e (trace w) = Inr p"
  shows "\<exists>w'. cd_client_connect_sync e client w = (Inr (), w')
           \<and> trace w' = trace w @ [ProxyNew]
           \<and> client_priv w' client =
               Some (priv\<lparr>proxy := Some p,
                          daemon_version :=
                            (case g_dbus_proxy_get_cached_property p ''Title'' of
                               Some v \<Rightarrow> Some v | None \<Rightarrow> daemon_version priv)\<rparr>)"
proof -
  from assms(1) have cp: "client_priv (w\<lparr>trace := trace w @ [ProxyNew]\<rparr>) client = Some priv"
    by simp
  have tr: "trace (set_payload client pl (w\<lparr>trace := t\<rparr>)) = t" for pl t
    by (simp add: set_payload_def split: option.splits)
  show ?thesis
    using assms client_priv_set_payload [OF cp]
    by (auto simp: cd_client_connect_sync_def g_dbus_proxy_new_for_bus_sync_def Let_def tr
        split: option.splits)
qed

text \<open>
  C9. The property connect reads for the version is the cached property named "Title"
  of the root object (the spec's "version"/title property). When the transport is
  established and that property is absent, connect succeeds, the client holds the new
  transport, its cached version is still unset, and \<open>cd_client_get_daemon_version\<close>
  returns the unset value and leaves the world, and so the trace of remote calls, as
  it is.
\<close>

theorem connect_without_version_property:
  assumes "client_priv w client = Some priv" and "proxy priv = None"
      and "daemon_version priv = None"
      and "proxy_new_for_bus e (trace w) = Inr p"
      and "g_dbus_proxy_get_cached_property p ''Title'' = None"
  shows "\<exists>w'. cd_client_connect_sync e client w = (Inr (), w')
           \<and> client_priv w' client = Some \<lparr>proxy = Some p, daemon_version = None\<rparr>
           \<and> cd_client_get_daemon_version client w' = (Inr None, w')"
proof -
  from connect_unconnected_ok [OF assms(1,2,4)] assms(3,5)
  obtain w' where w': "cd_client_connect_sync e client w = (Inr (), w')"
    "client_priv w' client = Some (priv\<lparr>proxy := Some p\<rparr>)"
    by auto
  moreover have "priv\<lparr>proxy := Some p\<rparr> = \<lparr>proxy = Some p, daemon_version = None\<rparr>"
    using assms(3) by (cases priv) simp
  ultimately show ?thesis
    by (auto simp: cd_client_get_daemon_version_def)
qed

theorem connect_without_version_property_witness:
  "client_priv fresh_world 0 = Some cd_client_init \<and> proxy cd_client_init = None
   \<and> daemon_version cd_client_init = None
   \<and> proxy_new_for_bus quiet_env (trace fresh_world) = Inr \<lparr>cached_properties = []\<rparr>
   \<and> g_dbus_proxy_get_cached_property \<lparr>cached_properties = []\<rparr> ''Title'' = None
   \<and> cd_client_connect_sync quiet_env 0 fresh_world = (Inr (), connected_world)
   \<and> cd_client_get_daemon_version 0 connected_world = (Inr None, connected_world)"
proof -
  have h2: "proxy cd_client_init = None" and h3: "daemon_version cd_client_init = None"
    by (simp_all add: cd_client_init_def)
  have h4: "proxy_new_for_bus quiet_env (trace fresh_world) = Inr \<lparr>cached_properties = []\<rparr>"
    by (simp add: quiet_env_def)
  have h5: "g_dbus_proxy_get_cached_property \<lparr>cached_properties = []\<rparr> ''Title'' = None"
    by (simp add: g_dbus_proxy_get_cached_property_def)
  from connect_without_version_property [OF fresh_world_priv h2 h3 h4 h5]
  obtain w' where "cd_client_connect_sync quiet_env 0 fresh_world = (Inr (), w')"
    "cd_client_get_daemon_version 0 w' = (Inr None, w')" by blast
  then show ?thesis
    using fresh_world_priv h2 h3 h4 h5 by (simp add: connected_world_def)
qed

subsection \<open>The process-wide client\<close>

lemma unref_last:
  assumes "obj_at w a = Some ob" and "ref_count ob \<le> 1"
  shows "g_object_unref a w =
           w\<lparr>heap := (heap w)[a := None],
             cd_client_object := (if cd_client_object w = Some a then None else cd_client_object w)\<rparr>"
  using assms by (simp add: g_object_unref_def)

lemma unref_shared:
  assumes "obj_at w a = Some ob" and "1 < ref_count ob"
  shows "g_object_unref a w = w\<lparr>heap := (heap w)[a := Some (ob\<lparr>ref_count := ref_count ob - 1\<rparr>)]\<rparr>"
  using assms by (simp add: g_object_unref_def)

lemma obj_at_heap_update:
  "obj_at (w\<lparr>heap := (heap w)[a := c]\<rparr>) b =
     (if b = a \<and> a < length (heap w) then c else obj_at w b)"
  by (simp add: obj_at_def)

lemma unref_all:
  assumes "obj_at w a = Some ob" and "ref_count ob = n" and "0 < n"
      and "cd_client_object w = Some a"
  shows "heap ((g_object_unref a ^^ n) w) = (heap w)[a := None]
       \<and> cd_client_object ((g_object_unref a ^^ n) w) = None"
  using assms
proof (induction n arbitrary: w ob)
  case 0
  then show ?case by simp
next
  case (Suc m)
  show ?case
  proof (cases m)
    case 0
    with Suc.prems show ?thesis by (simp add: unref_last)
  next
    case (Suc m')
    let ?w1 = "g_object_unref a w"
    let ?ob1 = "ob\<lparr>ref_count := m\<rparr>"
    from Suc.prems Suc have w1: "?w1 = w\<lparr>heap := (heap w)[a := Some ?ob1]\<rparr>"
      by (simp add: unref_shared)
    from Suc.prems(1) have a: "a < length (heap w)"
      by (simp add: obj_at_def split: if_splits)
    have "obj_at ?w1 a = Some ?ob1" using a by (simp add: w1 obj_at_heap_update)
    moreover have "ref_count ?ob1 = m" by simp
    moreover have "0 < m" using Suc by simp
    moreover have "cd_client_object ?w1 = Some a" using Suc.prems(4) by (simp add: w1)
    ultimately have "heap ((g_object_unref a ^^ m) ?w1) = (heap ?w1)[a := None]
       \<and> cd_client_object ((g_object_unref a ^^ m) ?w1) = None"
      by (rule Suc.IH)
    then show ?thesis
      by (simp add: funpow_swap1 w1)
  qed
qed

lemma client_new_live:
  assumes "cd_client_object w = Some a" and "obj_at w a = Some ob"
  shows "cd_client_new w = (a, w\<lparr>heap := (heap w)[a := Some (ob\<lparr>ref_count := ref_count ob + 1\<rparr>)]\<rparr>)"
  using assms by (simp add: cd_client_new_def g_object_ref_def)

lemma client_new_none:
  assumes "cd_client_object w = None"
  shows "cd_client_new w =
           (length (heap w),
            w\<lparr>heap := heap w @ [Some \<lparr>ref_count = 1, payload = ClientObj cd_client_init\<rparr>],
              cd_client_object := Some (length (heap w))\<rparr>)"
  using assms by (simp add: cd_client_new_def g_object_new_def)

text \<open>
  C8. While the client the static \<open>cd_client_object\<close> points to is alive (its
  reference count is positive), \<open>cd_client_new\<close> returns that same object, with one
  more reference and the same private data, and the static still points to it. Once as
  many references as it holds have been dropped, the object is finalized and the static
  is reset; the next \<open>cd_client_new\<close> then returns an object at an address that was
  never used before, with no transport and no cached version.
\<close>

theorem client_singleton:
  assumes "cd_client_object w = Some a" and "obj_at w a = Some ob" and "0 < ref_count ob"
  shows "fst (cd_client_new w) = a
       \<and> obj_at (snd (cd_client_new w)) a = Some (ob\<lparr>ref_count := ref_count ob + 1\<rparr>)
       \<and> cd_client_object (snd (cd_client_new w)) = Some a
       \<and> (let w' = (g_object_unref a ^^ ref_count ob) w;
               (b, w'') = cd_client_new w'
           in cd_client_object w' = None \<and> obj_at w' a = None
              \<and> b = length (heap w) \<and> b \<noteq> a
              \<and> client_priv w'' b = Some cd_client_init
              \<and> cd_client_object w'' = Some b)"
proof -
  from assms(2) have a: "a < length (heap w)"
    by (simp add: obj_at_def split: if_splits)
  have live: "fst (cd_client_new w) = a
       \<and> obj_at (snd (cd_client_new w)) a = Some (ob\<lparr>ref_count := ref_count ob + 1\<rparr>)
       \<and> cd_client_object (snd (cd_client_new w)) = Some a"
    using assms a by (simp add: client_new_live obj_at_heap_update)
  let ?w' = "(g_object_unref a ^^ ref_count ob) w"
  from unref_all [OF assms(2) refl assms(3) assms(1)]
  have w': "heap ?w' = (heap w)[a := None]" "cd_client_object ?w' = None" by simp_all
  have gone: "obj_at ?w' a = None" using a by (simp add: obj_at_def w')
  have len: "length (heap ?w') = length (heap w)" by (simp add: w')
  have fresh: "(let (b, w'') = cd_client_new ?w'
           in b = length (heap w) \<and> b \<noteq> a
              \<and> client_priv w'' b = Some cd_client_init
              \<and> cd_client_object w'' = Some b)"
    using a by (simp add: client_new_none [OF w'(2)] client_priv_def obj_at_def len [symmetric])
  from live w'(2) gone fresh show ?thesis by (simp add: Let_def)
qed

theorem client_singleton_witness:
  "cd_client_object connected_world = Some 0
   \<and> obj_at connected_world 0 = Some \<lparr>ref_count = 1,
         payload = ClientObj \<lparr>proxy = Some \<lparr>cached_properties = []\<rparr>, daemon_version = None\<rparr>\<rparr>
   \<and> fst (cd_client_new connected_world) = 0
   \<and> obj_at (snd (cd_client_new connected_world)) 0 = Some \<lparr>ref_count = 2,
         payload = ClientObj \<lparr>proxy = Some \<lparr>cached_properties = []\<rparr>, daemon_version = None\<rparr>\<rparr>
   \<and> cd_client_object (g_object_unref 0 connected_world) = None
   \<and> fst (cd_client_new (g_object_unref 0 connected_world)) = 1
   \<and> client_priv (snd (cd_client_new (g_object_unref 0 connected_world))) 1 = Some cd_client_init"
proof -
  let ?ob = "\<lparr>ref_count = 1,
         payload = ClientObj \<lparr>proxy = Some \<lparr>cached_properties = []\<rparr>, daemon_version = None\<rparr>\<rparr>"
  have h1: "cd_client_object connected_world = Some 0" by (simp add: connected_world_eq)
  have h2: "obj_at connected_world 0 = Some ?ob"
    by (simp add: connected_world_eq obj_at_def)
  have h3: "0 < ref_count ?ob" by simp
  have len: "length (heap connected_world) = 1" by (simp add: connected_world_eq)
  from client_singleton [OF h1 h2 h3]
  show ?thesis using h1 h2 by (auto simp: Let_def split_beta len)
qed

subsection \<open>One handle from one path\<close>

lemma new_handle_eq:
  "new_handle k w =
     (length (heap w),
      w\<lparr>heap := heap w @ [Some \<lparr>ref_count = 1,
            payload = HandleObj \<lparr>h_kind = k, h_object_path = None, h_properties = None\<rparr>\<rparr>]\<rparr>)"
  by (simp add: new_handle_def g_object_new_def)

lemma loop_Cons_fail:
  assumes "fetch_properties e (trace w) k p = Inl m"
  shows "array_from_variant_loop e k what (p # ps) arr w =
           (Some (CD_CLIENT_ERROR_FAILED (what @ m)), arr,
            w\<lparr>trace := trace w @ [SetObjectPath k p],
              heap := heap w @ [None],
              cd_client_object :=
                (if cd_client_object w = Some (length (heap w)) then None else cd_client_object w)\<rparr>)"
  using assms
  by (simp add: new_handle_eq set_object_path_sync_def g_object_unref_def obj_at_def)

lemma loop_Cons_ok:
  assumes "fetch_properties e (trace w) k p = Inr props"
  shows "array_from_variant_loop e k what (p # ps) arr w =
           array_from_variant_loop e k what ps (g_ptr_array_add arr (length (heap w)))
             (w\<lparr>trace := trace w @ [SetObjectPath k p],
                heap := heap w @ [bound_cell k p props]\<rparr>)"
  using assms
  by (simp add: new_handle_eq set_object_path_sync_def set_payload_def obj_at_def bound_cell_def)

lemma handle_from_path_fail:
  assumes "fetch_properties e (trace w) k path = Inl m"
  shows "handle_from_path e k path w =
           (Inl (Failed (BindFailed m)),
            w\<lparr>trace := trace w @ [SetObjectPath k path],
              heap := heap w @ [None],
              cd_client_object :=
                (if cd_client_object w = Some (length (heap w)) then None else cd_client_object w)\<rparr>)"
  using assms
  by (simp add: handle_from_path_def new_handle_eq set_object_path_sync_def g_object_unref_def
      obj_at_def)

lemma handle_from_path_ok:
  assumes "fetch_properties e (trace w) k path = Inr props"
  shows "handle_from_path e k path w =
           (Inr (length (heap w)),
            w\<lparr>trace := trace w @ [SetObjectPath k path],
              heap := heap w @ [bound_cell k path props]\<rparr>)"
  using assms
  by (simp add: handle_from_path_def new_handle_eq set_object_path_sync_def g_object_unref_def
      g_object_ref_def set_payload_def obj_at_def bound_cell_def)

text \<open>
  C5, as the code has it. On a connected client \<open>cd_client_create_device_sync\<close> sends
  exactly one method call, CreateDevice with the parameters \<open>(id, options)\<close>. If the
  call comes back with an error, the result is \<open>CD_CLIENT_ERROR_FAILED\<close> with the
  message "Failed to CreateDevice: " followed by the remote message, and no handle
  exists afterwards. If it comes back with a path, one handle is created and bound to
  that path. When the binding fails, the error the binding set is returned as it is
  (it is not wrapped into \<open>CD_CLIENT_ERROR_FAILED\<close>), and the handle is finalized.
  When the binding succeeds, the result is the new handle: a Device, bound, with the
  reply's path as its object path, and owned once.
\<close>

theorem create_device_outcome:
  assumes "client_priv w client = Some priv" and "proxy priv = Some p"
  shows "(let params = Some (GTuple [GString ident, GUInt32 options]);
              call = ProxyCall ''CreateDevice'' params;
              r = cd_client_create_device_sync e client ident options w
          in (\<forall>msg. call_path e (trace w) ''CreateDevice'' params = Inl msg \<longrightarrow>
                fst r = Inl (Failed (CD_CLIENT_ERROR_FAILED (''Failed to CreateDevice: '' @ msg)))
                \<and> trace (snd r) = trace w @ [call]
                \<and> heap (snd r) = heap w)
           \<and> (\<forall>path m. call_path e (trace w) ''CreateDevice'' params = Inr path
                \<and> fetch_properties e (trace w @ [call]) CdDevice path = Inl m \<longrightarrow>
                fst r = Inl (Failed (BindFailed m))
                \<and> trace (snd r) = trace w @ [call, SetObjectPath CdDevice path]
                \<and> heap (snd r) = heap w @ [None])
           \<and> (\<forall>path props. call_path e (trace w) ''CreateDevice'' params = Inr path
                \<and> fetch_properties e (trace w @ [call]) CdDevice path = Inr props \<longrightarrow>
                fst r = Inr (length (heap w))
                \<and> trace (snd r) = trace w @ [call, SetObjectPath CdDevice path]
                \<and> heap (snd r) = heap w @ [bound_cell CdDevice path props]))"
  using assms
  by (auto simp: cd_client_create_device_sync_def call_sync_o_def Let_def
      handle_from_path_fail handle_from_path_ok)

theorem create_device_outcome_witness:
  "client_priv connected_world 0 =
     Some \<lparr>proxy = Some \<lparr>cached_properties = []\<rparr>, daemon_version = None\<rparr>
   \<and> call_path quiet_env (trace connected_world) ''CreateDevice''
        (Some (GTuple [GString ''epson-9800'', GUInt32 0])) = Inr ''/org/d1''
   \<and> fst (cd_client_create_device_sync quiet_env 0 ''epson-9800'' 0 connected_world) = Inr 1
   \<and> handle_at (snd (cd_client_create_device_sync quiet_env 0 ''epson-9800'' 0 connected_world)) 1 =
        Some \<lparr>h_kind = CdDevice, h_object_path = Some ''/org/d1'',
              h_properties = Some \<lparr>prop_id = ''/org/d1'', prop_kind = ''display'', prop_title = ''t'',
                   prop_filename = None, prop_qualifier = None\<rparr>\<rparr>
   \<and> trace (snd (cd_client_create_device_sync quiet_env 0 ''epson-9800'' 0 connected_world)) =
        [ProxyNew, ProxyCall ''CreateDevice'' (Some (GTuple [GString ''epson-9800'', GUInt32 0])),
         SetObjectPath CdDevice ''/org/d1'']"
proof -
  have c: "call_path quiet_env (trace connected_world) ''CreateDevice''
        (Some (GTuple [GString ''epson-9800'', GUInt32 0])) = Inr ''/org/d1''"
    by (simp add: quiet_env_def)
  have f: "fetch_properties quiet_env
        (trace connected_world @
           [ProxyCall ''CreateDevice'' (Some (GTuple [GString ''epson-9800'', GUInt32 0]))])
        CdDevice ''/org/d1'' =
      Inr \<lparr>prop_id = ''/org/d1'', prop_kind = ''display'', prop_title = ''t'',
                   prop_filename = None, prop_qualifier = None\<rparr>"
    by (simp add: quiet_env_def)
  have len: "length (heap connected_world) = 1" and tr: "trace connected_world = [ProxyNew]"
    by (simp_all add: connected_world_eq)
  from create_device_outcome [OF connected_world_priv, where e = quiet_env
      and ident = "''epson-9800''" and options = 0] c f
  show ?thesis
    using connected_world_priv
    by (simp add: Let_def len tr handle_at_def obj_at_def bound_cell_def nth_append)
qed

text \<open>
  The claim as stated for C5 has \<open>create_device\<close> fail with RequestFailed also when
  the binding fails. With a daemon whose CreateDevice answers a path that cannot be
  bound, the failure is the binding's own error.
\<close>

theorem create_device_bind_failure_counterexample:
  "fst (cd_client_create_device_sync lossy_env 0 ''epson-9800'' 0 connected_world) =
     Inl (Failed (BindFailed ''no such object''))"
  by (simp add: cd_client_create_device_sync_def connected_world_priv call_sync_o_def
      lossy_env_def quiet_env_def handle_from_path_fail)

subsection \<open>The loop over a reply\<close>

lemma length_bind_answers [simp]: "length (bind_answers e k tr ps) = length ps"
  by (induction ps arbitrary: tr) simp_all

lemma first_bind_failure_0:
  "first_bind_failure e k tr (p # ps) 0 m \<longleftrightarrow> fetch_properties e tr k p = Inl m"
  by (simp add: first_bind_failure_def)

lemma first_bind_failure_Suc:
  "first_bind_failure e k tr (p # ps) (Suc n) m \<longleftrightarrow>
     (\<exists>props. fetch_properties e tr k p = Inr props)
     \<and> first_bind_failure e k (tr @ [SetObjectPath k p]) ps n m"
  by (cases "fetch_properties e tr k p") (auto simp: first_bind_failure_def)

lemma loop_failure:
  assumes "first_bind_failure e k (trace w) ps n m"
  shows "\<exists>arr' w' cells.
           array_from_variant_loop e k what ps arr w =
             (Some (CD_CLIENT_ERROR_FAILED (what @ m)), arr', w')
           \<and> refs arr' = refs arr
           \<and> pdata arr' = pdata arr @ [length (heap w)..<length (heap w) + n]
           \<and> heap w' = heap w @ cells @ [None]
           \<and> length cells = n
           \<and> (\<forall>c\<in>set cells. \<exists>ob. c = Some ob \<and> ref_count ob = 1)
           \<and> trace w' = trace w @ map (SetObjectPath k) (take (Suc n) ps)"
  using assms
proof (induction ps arbitrary: n arr w)
  case Nil
  then show ?case by (simp add: first_bind_failure_def)
next
  case (Cons p ps)
  show ?case
  proof (cases n)
    case 0
    with Cons.prems have "fetch_properties e (trace w) k p = Inl m"
      by (simp add: first_bind_failure_0)
    then have f: "fetch_properties e (trace w) k p = Inl m" .
    define w1 where "w1 = w\<lparr>trace := trace w @ [SetObjectPath k p],
              heap := heap w @ [None],
              cd_client_object :=
                (if cd_client_object w = Some (length (heap w)) then None else cd_client_object w)\<rparr>"
    have run: "array_from_variant_loop e k what (p # ps) arr w =
           (Some (CD_CLIENT_ERROR_FAILED (what @ m)), arr, w1)"
      unfolding w1_def using f by (rule loop_Cons_fail)
    show ?thesis unfolding 0 run
      by (rule exI [where x = arr], rule exI [where x = w1], rule exI [where x = "[]"])
        (simp add: w1_def)
  next
    case (Suc n')
    with Cons.prems obtain props where
      ok: "fetch_properties e (trace w) k p = Inr props" and
      rest: "first_bind_failure e k (trace w @ [SetObjectPath k p]) ps n' m"
      by (auto simp: first_bind_failure_Suc)
    let ?w2 = "w\<lparr>trace := trace w @ [SetObjectPath k p],
                  heap := heap w @ [bound_cell k p props]\<rparr>"
    let ?arr2 = "g_ptr_array_add arr (length (heap w))"
    from rest have "first_bind_failure e k (trace ?w2) ps n' m" by simp
    from Cons.IH [OF this, of ?arr2]
    obtain arr' w' cells where
      run: "array_from_variant_loop e k what ps ?arr2 ?w2 =
              (Some (CD_CLIENT_ERROR_FAILED (what @ m)), arr', w')" and
      refs: "refs arr' = refs ?arr2" and
      pd: "pdata arr' = pdata ?arr2 @ [length (heap ?w2)..<length (heap ?w2) + n']" and
      hp: "heap w' = heap ?w2 @ cells @ [None]" and
      len: "length cells = n'" and
      live: "\<forall>c\<in>set cells. \<exists>ob. c = Some ob \<and> ref_count ob = 1" and
      tr: "trace w' = trace ?w2 @ map (SetObjectPath k) (take (Suc n') ps)"
      by blast
    have upt: "[length (heap w)..<length (heap w) + Suc n'] =
                 length (heap w) # [Suc (length (heap w))..<Suc (length (heap w)) + n']"
      by (simp add: upt_rec)
    have "array_from_variant_loop e k what (p # ps) arr w =
             (Some (CD_CLIENT_ERROR_FAILED (what @ m)), arr', w')"
      using run by (simp only: loop_Cons_ok [OF ok])
    moreover have "refs arr' = refs arr" using refs by (simp add: g_ptr_array_add_def)
    moreover have "pdata arr' = pdata arr @ [length (heap w)..<length (heap w) + n]"
      using pd Suc upt by (simp add: g_ptr_array_add_def)
    moreover have "heap w' = heap w @ (bound_cell k p props # cells) @ [None]"
      using hp by simp
    moreover have "length (bound_cell k p props # cells) = n" using len Suc by simp
    moreover have "\<forall>c\<in>set (bound_cell k p props # cells). \<exists>ob. c = Some ob \<and> ref_count ob = 1"
      using live by (simp add: bound_cell_def)
    moreover have "trace w' = trace w @ map (SetObjectPath k) (take (Suc n) (p # ps))"
      using tr Suc by simp
    ultimately show ?thesis by blast
  qed
qed

lemma unref_cells:
  assumes "heap w = H @ cells @ T"
      and "\<forall>c\<in>set cells. \<exists>ob. c = Some ob \<and> ref_count ob = 1"
  shows "heap (fold g_object_unref [length H..<length H + length cells] w) =
           H @ replicate (length cells) None @ T"
  using assms
proof (induction cells arbitrary: H w)
  case Nil
  then show ?case by simp
next
  case (Cons c cs)
  from Cons.prems(2) obtain ob where c: "c = Some ob" "ref_count ob = 1" by auto
  let ?w1 = "g_object_unref (length H) w"
  have at: "obj_at w (length H) = Some ob"
    using Cons.prems(1) c by (simp add: obj_at_def nth_append)
  have h1: "heap ?w1 = (H @ [None]) @ cs @ T"
    using at c Cons.prems(1) by (simp add: g_object_unref_def list_update_append)
  have live: "\<forall>c\<in>set cs. \<exists>ob. c = Some ob \<and> ref_count ob = 1"
    using Cons.prems(2) by simp
  have upt: "[length H..<length H + length (c # cs)] =
               length H # [length (H @ [None])..<length (H @ [None]) + length cs]"
    by (simp add: upt_rec)
  from Cons.IH [OF h1 live] show ?case
    by (simp only: upt fold_Cons comp_apply) (simp add: replicate_app_Cons_same)
qed


lemma loop_success:
  assumes "list_all (\<lambda>r. \<not> isl r) (bind_answers e k (trace w) ps)"
  shows "\<exists>arr' w' cells.
           array_from_variant_loop e k what ps arr w = (None, arr', w')
           \<and> refs arr' = refs arr
           \<and> pdata arr' = pdata arr @ [length (heap w)..<length (heap w) + length ps]
           \<and> heap w' = heap w @ cells
           \<and> length cells = length ps
           \<and> (\<forall>i<length ps. \<exists>props. cells ! i = bound_cell k (ps ! i) props)
           \<and> trace w' = trace w @ map (SetObjectPath k) ps"
  using assms
proof (induction ps arbitrary: arr w)
  case Nil
  show ?case
    by (rule exI [where x = arr], rule exI [where x = w], rule exI [where x = "[]"]) simp
next
  case (Cons p ps)
  from Cons.prems obtain props where
    ok: "fetch_properties e (trace w) k p = Inr props" and
    rest: "list_all (\<lambda>r. \<not> isl r) (bind_answers e k (trace w @ [SetObjectPath k p]) ps)"
    by (cases "fetch_properties e (trace w) k p") auto
  let ?w2 = "w\<lparr>trace := trace w @ [SetObjectPath k p],
                heap := heap w @ [bound_cell k p props]\<rparr>"
  let ?arr2 = "g_ptr_array_add arr (length (heap w))"
  from rest have "list_all (\<lambda>r. \<not> isl r) (bind_answers e k (trace ?w2) ps)" by simp
  from Cons.IH [OF this, of ?arr2]
  obtain arr' w' cells where
    run: "array_from_variant_loop e k what ps ?arr2 ?w2 = (None, arr', w')" and
    refs: "refs arr' = refs ?arr2" and
    pd: "pdata arr' = pdata ?arr2 @ [length (heap ?w2)..<length (heap ?w2) + length ps]" and
    hp: "heap w' = heap ?w2 @ cells" and
    len: "length cells = length ps" and
    cells: "\<forall>i<length ps. \<exists>props. cells ! i = bound_cell k (ps ! i) props" and
    tr: "trace w' = trace ?w2 @ map (SetObjectPath k) ps"
    by blast
  have upt: "[length (heap w)..<length (heap w) + length (p # ps)] =
               length (heap w) # [Suc (length (heap w))..<Suc (length (heap w)) + length ps]"
    by (simp add: upt_rec)
  have "array_from_variant_loop e k what (p # ps) arr w = (None, arr', w')"
    using run by (simp only: loop_Cons_ok [OF ok])
  moreover have "refs arr' = refs arr" using refs by (simp add: g_ptr_array_add_def)
  moreover have "pdata arr' = pdata arr @ [length (heap w)..<length (heap w) + length (p # ps)]"
    using pd upt by (simp add: g_ptr_array_add_def)
  moreover have "heap w' = heap w @ (bound_cell k p props # cells)" using hp by simp
  moreover have "length (bound_cell k p props # cells) = length (p # ps)" using len by simp
  moreover have "\<forall>i<length (p # ps). \<exists>q. (bound_cell k p props # cells) ! i = bound_cell k ((p # ps) ! i) q"
    using cells by (auto simp: nth_Cons split: nat.splits)
  moreover have "trace w' = trace w @ map (SetObjectPath k) (p # ps)" using tr by simp
  ultimately show ?case by blast
qed

lemma answers_dichotomy:
  "list_all (\<lambda>r. \<not> isl r) rs
   \<or> (\<exists>n m. n < length rs \<and> list_all (\<lambda>r. \<not> isl r) (take n rs) \<and> rs ! n = Inl m)"
proof (induction rs)
  case Nil
  show ?case by simp
next
  case (Cons r rs)
  show ?case
  proof (cases r)
    case (Inl m)
    then have "0 < length (r # rs) \<and> list_all (\<lambda>r. \<not> isl r) (take 0 (r # rs)) \<and> (r # rs) ! 0 = Inl m"
      by simp
    then show ?thesis by blast
  next
    case (Inr props)
    from Cons.IH show ?thesis
    proof
      assume "list_all (\<lambda>r. \<not> isl r) rs"
      then show ?thesis using Inr by simp
    next
      assume "\<exists>n m. n < length rs \<and> list_all (\<lambda>r. \<not> isl r) (take n rs) \<and> rs ! n = Inl m"
      then obtain n m where "n < length rs" "list_all (\<lambda>r. \<not> isl r) (take n rs)" "rs ! n = Inl m"
        by blast
      then have "Suc n < length (r # rs) \<and> list_all (\<lambda>r. \<not> isl r) (take (Suc n) (r # rs))
                 \<and> (r # rs) ! Suc n = Inl m"
        using Inr by simp
      then show ?thesis by blast
    qed
  qed
qed

lemma bind_dichotomy:
  "list_all (\<lambda>r. \<not> isl r) (bind_answers e k tr ps) \<or> (\<exists>n m. first_bind_failure e k tr ps n m)"
  using answers_dichotomy [of "bind_answers e k tr ps"]
  by (auto simp: first_bind_failure_def)

lemma trace_unref [simp]: "trace (g_object_unref a w) = trace w"
  by (simp add: g_object_unref_def split: option.splits)

lemma trace_fold_unref [simp]: "trace (fold g_object_unref as w) = trace w"
  by (induction as arbitrary: w) simp_all

lemma array_from_variant_failure:
  assumes "first_bind_failure e k (trace w) ps n m"
  shows "\<exists>w'. array_from_variant e k what ps w =
                 (Inl (Failed (CD_CLIENT_ERROR_FAILED (what @ m))), w')
           \<and> heap w' = heap w @ replicate (Suc n) None
           \<and> trace w' = trace w @ map (SetObjectPath k) (take (Suc n) ps)"
proof -
  from loop_failure [OF assms, of what g_ptr_array_new_with_free_func]
  obtain arr' w1 cells where
    run: "array_from_variant_loop e k what ps g_ptr_array_new_with_free_func w =
            (Some (CD_CLIENT_ERROR_FAILED (what @ m)), arr', w1)" and
    refs: "refs arr' = 1" and
    pd: "pdata arr' = [length (heap w)..<length (heap w) + n]" and
    hp: "heap w1 = heap w @ cells @ [None]" and
    len: "length cells = n" and
    live: "\<forall>c\<in>set cells. \<exists>ob. c = Some ob \<and> ref_count ob = 1" and
    tr: "trace w1 = trace w @ map (SetObjectPath k) (take (Suc n) ps)"
    by (auto simp: g_ptr_array_new_with_free_func_def)
  from unref_cells [OF hp live]
  have "heap (fold g_object_unref (pdata arr') w1) = heap w @ replicate (Suc n) None"
    by (simp add: pd len replicate_append_same)
  then show ?thesis
    using run refs tr by (simp add: array_from_variant_def g_ptr_array_unref_def)
qed

lemma array_from_variant_success:
  assumes "list_all (\<lambda>r. \<not> isl r) (bind_answers e k (trace w) ps)"
  shows "\<exists>arr w' cells. array_from_variant e k what ps w = (Inr arr, w')
           \<and> refs arr = 1
           \<and> pdata arr = [length (heap w)..<length (heap w) + length ps]
           \<and> heap w' = heap w @ cells
           \<and> length cells = length ps
           \<and> (\<forall>i<length ps. \<exists>props. cells ! i = bound_cell k (ps ! i) props)
           \<and> trace w' = trace w @ map (SetObjectPath k) ps"
proof -
  from loop_success [OF assms, of what g_ptr_array_new_with_free_func]
  obtain arr' w1 cells where
    run: "array_from_variant_loop e k what ps g_ptr_array_new_with_free_func w = (None, arr', w1)" and
    refs: "refs arr' = 1" and
    pd: "pdata arr' = [length (heap w)..<length (heap w) + length ps]" and
    rest: "heap w1 = heap w @ cells" "length cells = length ps"
      "\<forall>i<length ps. \<exists>props. cells ! i = bound_cell k (ps ! i) props"
      "trace w1 = trace w @ map (SetObjectPath k) ps"
    by (auto simp: g_ptr_array_new_with_free_func_def)
  have "array_from_variant e k what ps w = (Inr arr', w1)"
    using run refs
    by (cases arr') (simp add: array_from_variant_def g_ptr_array_unref_def g_ptr_array_ref_def)
  with refs pd rest show ?thesis by blast
qed

subsection \<open>Bulk lists\<close>

lemma get_devices_connected:
  assumes "client_priv w client = Some priv" and "proxy priv = Some p"
  shows "cd_client_get_devices_sync e client w =
           (case call_paths e (trace w) ''GetDevices'' None of
              Inl msg \<Rightarrow>
                (Inl (Failed (CD_CLIENT_ERROR_FAILED (''Failed to GetDevices: '' @ msg))),
                 w\<lparr>trace := trace w @ [ProxyCall ''GetDevices'' None]\<rparr>)
            | Inr paths \<Rightarrow>
                array_from_variant e CdDevice ''Failed to set device object path: '' paths
                  (w\<lparr>trace := trace w @ [ProxyCall ''GetDevices'' None]\<rparr>))"
  using assms
  by (simp add: cd_client_get_devices_sync_def call_sync_ao_def
      cd_client_get_device_array_from_variant_def split: sum.splits)

lemma get_devices_by_kind_connected:
  assumes "client_priv w client = Some priv" and "proxy priv = Some p"
  shows "cd_client_get_devices_by_kind_sync e client kind w =
           (case call_paths e (trace w) ''GetDevicesByKind''
                   (Some (GTuple [GString (cd_device_kind_to_string e kind)])) of
              Inl msg \<Rightarrow>
                (Inl (Failed (CD_CLIENT_ERROR_FAILED (''Failed to GetDevicesByKind: '' @ msg))),
                 w\<lparr>trace := trace w @ [ProxyCall ''GetDevicesByKind''
                     (Some (GTuple [GString (cd_device_kind_to_string e kind)]))]\<rparr>)
            | Inr paths \<Rightarrow>
                array_from_variant e CdDevice ''Failed to set device object path: '' paths
                  (w\<lparr>trace := trace w @ [ProxyCall ''GetDevicesByKind''
                     (Some (GTuple [GString (cd_device_kind_to_string e kind)]))]\<rparr>))"
  using assms
  by (simp add: cd_client_get_devices_by_kind_sync_def call_sync_ao_def
      cd_client_get_device_array_from_variant_def split: sum.splits)

lemma get_profiles_connected:
  assumes "client_priv w client = Some priv" and "proxy priv = Some p"
  shows "cd_client_get_profiles_sync e client w =
           (case call_paths e (trace w) ''GetProfiles'' None of
              Inl msg \<Rightarrow>
                (Inl (Failed (CD_CLIENT_ERROR_FAILED (''Failed to GetProfiles: '' @ msg))),
                 w\<lparr>trace := trace w @ [ProxyCall ''GetProfiles'' None]\<rparr>)
            | Inr paths \<Rightarrow>
                array_from_variant e CdProfile ''Failed to set profile object path: '' paths
                  (w\<lparr>trace := trace w @ [ProxyCall ''GetProfiles'' None]\<rparr>))"
  using assms
  by (simp add: cd_client_get_profiles_sync_def call_sync_ao_def
      cd_client_get_profile_array_from_variant_def split: sum.splits)

lemma bulk_failure_after_call:
  assumes "first_bind_failure e k (trace w @ [c]) paths n m"
  shows "fst (array_from_variant e k what paths (w\<lparr>trace := trace w @ [c]\<rparr>)) =
           Inl (Failed (CD_CLIENT_ERROR_FAILED (what @ m)))
       \<and> heap (snd (array_from_variant e k what paths (w\<lparr>trace := trace w @ [c]\<rparr>))) =
           heap w @ replicate (Suc n) None"
proof -
  from assms have "first_bind_failure e k (trace (w\<lparr>trace := trace w @ [c]\<rparr>)) paths n m"
    by simp
  from array_from_variant_failure [OF this, of what] show ?thesis by auto
qed

lemma get_devices_bulk_failure:
  assumes "client_priv w client = Some priv" and "proxy priv = Some p"
      and "call_paths e (trace w) ''GetDevices'' None = Inr paths"
      and "first_bind_failure e CdDevice (trace w @ [ProxyCall ''GetDevices'' None]) paths n m"
  shows "fst (cd_client_get_devices_sync e client w) =
           Inl (Failed (CD_CLIENT_ERROR_FAILED (''Failed to set device object path: '' @ m)))
       \<and> heap (snd (cd_client_get_devices_sync e client w)) = heap w @ replicate (Suc n) None"
  unfolding get_devices_connected [OF assms(1,2)] assms(3) sum.case
  by (rule bulk_failure_after_call [OF assms(4)])

lemma get_devices_by_kind_bulk_failure:
  assumes "client_priv w client = Some priv" and "proxy priv = Some p"
      and "call_paths e (trace w) ''GetDevicesByKind''
              (Some (GTuple [GString (cd_device_kind_to_string e kind)])) = Inr paths"
      and "first_bind_failure e CdDevice
                (trace w @ [ProxyCall ''GetDevicesByKind''
                              (Some (GTuple [GString (cd_device_kind_to_string e kind)]))]) paths n m"
  shows "fst (cd_client_get_devices_by_kind_sync e client kind w) =
           Inl (Failed (CD_CLIENT_ERROR_FAILED (''Failed to set device object path: '' @ m)))
       \<and> heap (snd (cd_client_get_devices_by_kind_sync e client kind w)) =
           heap w @ replicate (Suc n) None"
  unfolding get_devices_by_kind_connected [OF assms(1,2)] assms(3) sum.case
  by (rule bulk_failure_after_call [OF assms(4)])

lemma get_profiles_bulk_failure:
  assumes "client_priv w client = Some priv" and "proxy priv = Some p"
      and "call_paths e (trace w) ''GetProfiles'' None = Inr paths"
      and "first_bind_failure e CdProfile (trace w @ [ProxyCall ''GetProfiles'' None]) paths n m"
  shows "fst (cd_client_get_profiles_sync e client w) =
           Inl (Failed (CD_CLIENT_ERROR_FAILED (''Failed to set profile object path: '' @ m)))
       \<and> heap (snd (cd_client_get_profiles_sync e client w)) = heap w @ replicate (Suc n) None"
  unfolding get_profiles_connected [OF assms(1,2)] assms(3) sum.case
  by (rule bulk_failure_after_call [OF assms(4)])

text \<open>
  C1. Take a connected client and one of the three bulk operations, and let the remote
  call answer a list of paths of which element \<open>n\<close> is the first whose binding fails,
  with message \<open>m\<close>. Then the operation returns a single failure and no list: the
  error is \<open>CD_CLIENT_ERROR_FAILED\<close> with the message "Failed to set device object
  path: " (for profiles "Failed to set profile object path: ") followed by \<open>m\<close>.
  Afterwards the heap is the heap from before followed by \<open>n + 1\<close> finalized cells:
  the \<open>n\<close> handles bound in this pass and the one that failed have all been released,
  and nothing else was touched.
\<close>

theorem bulk_bind_failure_all_or_nothing:
  assumes "client_priv w client = Some priv" and "proxy priv = Some p"
  shows "(\<forall>paths n m.
            call_paths e (trace w) ''GetDevices'' None = Inr paths
            \<and> first_bind_failure e CdDevice (trace w @ [ProxyCall ''GetDevices'' None]) paths n m
            \<longrightarrow> fst (cd_client_get_devices_sync e client w) =
                  Inl (Failed (CD_CLIENT_ERROR_FAILED (''Failed to set device object path: '' @ m)))
                \<and> heap (snd (cd_client_get_devices_sync e client w)) =
                  heap w @ replicate (Suc n) None)
       \<and> (\<forall>paths n m.
            call_paths e (trace w) ''GetDevicesByKind''
              (Some (GTuple [GString (cd_device_kind_to_string e kind)])) = Inr paths
            \<and> first_bind_failure e CdDevice
                (trace w @ [ProxyCall ''GetDevicesByKind''
                              (Some (GTuple [GString (cd_device_kind_to_string e kind)]))]) paths n m
            \<longrightarrow> fst (cd_client_get_devices_by_kind_sync e client kind w) =
                  Inl (Failed (CD_CLIENT_ERROR_FAILED (''Failed to set device object path: '' @ m)))
                \<and> heap (snd (cd_client_get_devices_by_kind_sync e client kind w)) =
                  heap w @ replicate (Suc n) None)
       \<and> (\<forall>paths n m.
            call_paths e (trace w) ''GetProfiles'' None = Inr paths
            \<and> first_bind_failure e CdProfile (trace w @ [ProxyCall ''GetProfiles'' None]) paths n m
            \<longrightarrow> fst (cd_client_get_profiles_sync e client w) =
                  Inl (Failed (CD_CLIENT_ERROR_FAILED (''Failed to set profile object path: '' @ m)))
                \<and> heap (snd (cd_client_get_profiles_sync e client w)) =
                  heap w @ replicate (Suc n) None)"
  using get_devices_bulk_failure [OF assms] get_devices_by_kind_bulk_failure [OF assms]
    get_profiles_bulk_failure [OF assms]
  by blast

theorem bulk_bind_failure_all_or_nothing_witness:
  "client_priv connected_world 0 =
     Some \<lparr>proxy = Some \<lparr>cached_properties = []\<rparr>, daemon_version = None\<rparr>
   \<and> call_paths lossy_env (trace connected_world) ''GetDevices'' None =
        Inr [''/org/d1'', ''/org/gone'', ''/org/d2'']
   \<and> first_bind_failure lossy_env CdDevice
        (trace connected_world @ [ProxyCall ''GetDevices'' None])
        [''/org/d1'', ''/org/gone'', ''/org/d2''] 1 ''no such object''
   \<and> fst (cd_client_get_devices_sync lossy_env 0 connected_world) =
        Inl (Failed (CD_CLIENT_ERROR_FAILED ''Failed to set device object path: no such object''))
   \<and> heap (snd (cd_client_get_devices_sync lossy_env 0 connected_world)) =
        heap connected_world @ [None, None]"
proof -
  have h2: "proxy \<lparr>proxy = Some \<lparr>cached_properties = []\<rparr>, daemon_version = None\<rparr> =
      Some \<lparr>cached_properties = []\<rparr>" by simp
  have c: "call_paths lossy_env (trace connected_world) ''GetDevices'' None =
        Inr [''/org/d1'', ''/org/gone'', ''/org/d2'']"
    by (simp add: lossy_env_def)
  have f: "first_bind_failure lossy_env CdDevice
        (trace connected_world @ [ProxyCall ''GetDevices'' None])
        [''/org/d1'', ''/org/gone'', ''/org/d2''] 1 ''no such object''"
    by (simp add: first_bind_failure_def lossy_env_def quiet_env_def)
  from bulk_bind_failure_all_or_nothing [OF connected_world_priv h2, of lossy_env] c f
  have "fst (cd_client_get_devices_sync lossy_env 0 connected_world) =
          Inl (Failed (CD_CLIENT_ERROR_FAILED (''Failed to set device object path: '' @ ''no such object'')))
        \<and> heap (snd (cd_client_get_devices_sync lossy_env 0 connected_world)) =
          heap connected_world @ replicate (Suc 1) None"
    by blast
  with connected_world_priv c f show ?thesis by (simp add: numeral_2_eq_2)
qed

lemma handle_at_bound_cell:
  assumes "heap w' = H @ cells" and "i < length cells" and "cells ! i = bound_cell k path props"
  shows "handle_at w' (length H + i) =
           Some \<lparr>h_kind = k, h_object_path = Some path, h_properties = Some props\<rparr>"
  using assms by (simp add: handle_at_def obj_at_def nth_append bound_cell_def)

lemma array_from_variant_Inr:
  assumes "array_from_variant e k what ps w = (Inr arr, w')"
  shows "pdata arr = [length (heap w)..<length (heap w) + length ps]
       \<and> refs arr = 1
       \<and> (\<forall>i<length ps. \<exists>props. handle_at w' (length (heap w) + i) =
             Some \<lparr>h_kind = k, h_object_path = Some (ps ! i), h_properties = Some props\<rparr>)
       \<and> (\<exists>cells. heap w' = heap w @ cells \<and> length cells = length ps)
       \<and> trace w' = trace w @ map (SetObjectPath k) ps"
proof -
  from bind_dichotomy [of e k "trace w" ps]
  have ok: "list_all (\<lambda>r. \<not> isl r) (bind_answers e k (trace w) ps)"
  proof
    assume "\<exists>n m. first_bind_failure e k (trace w) ps n m"
    then obtain n m where "first_bind_failure e k (trace w) ps n m" by blast
    from array_from_variant_failure [OF this, of what] assms show ?thesis by auto
  qed
  from array_from_variant_success [OF ok, of what] assms
  obtain cells where
    pd: "pdata arr = [length (heap w)..<length (heap w) + length ps]" and
    refs: "refs arr = 1" and
    hp: "heap w' = heap w @ cells" and
    len: "length cells = length ps" and
    cells: "\<forall>i<length ps. \<exists>props. cells ! i = bound_cell k (ps ! i) props" and
    tr: "trace w' = trace w @ map (SetObjectPath k) ps"
    by auto
  have "\<forall>i<length ps. \<exists>props. handle_at w' (length (heap w) + i) =
             Some \<lparr>h_kind = k, h_object_path = Some (ps ! i), h_properties = Some props\<rparr>"
  proof (intro allI impI)
    fix i assume i: "i < length ps"
    with cells obtain props where "cells ! i = bound_cell k (ps ! i) props" by blast
    from handle_at_bound_cell [OF hp _ this] i len
    show "\<exists>props. handle_at w' (length (heap w) + i) =
             Some \<lparr>h_kind = k, h_object_path = Some (ps ! i), h_properties = Some props\<rparr>"
      by auto
  qed
  with pd refs hp len tr show ?thesis by blast
qed

text \<open>
  C2. When \<open>cd_client_get_devices_sync\<close> succeeds and the reply of GetDevices held
  the paths \<open>paths\<close>, the returned array has as many elements as \<open>paths\<close>, the
  elements are distinct objects, and element \<open>i\<close> is a Device handle in the bound
  state whose object path is \<open>paths ! i\<close>: the reply's order is kept.
\<close>

theorem list_devices_success:
  assumes "cd_client_get_devices_sync e client w = (Inr arr, w')"
      and "call_paths e (trace w) ''GetDevices'' None = Inr paths"
  shows "length (pdata arr) = length paths
       \<and> distinct (pdata arr)
       \<and> (\<forall>i<length paths. \<exists>h. handle_at w' (pdata arr ! i) = Some h \<and> bound h
             \<and> h_kind h = CdDevice \<and> h_object_path h = Some (paths ! i))"
proof -
  from assms(1) obtain priv p where c: "client_priv w client = Some priv" "proxy priv = Some p"
    by (auto simp: cd_client_get_devices_sync_def split: option.splits)
  let ?w1 = "w\<lparr>trace := trace w @ [ProxyCall ''GetDevices'' None]\<rparr>"
  from assms have run: "array_from_variant e CdDevice ''Failed to set device object path: '' paths ?w1 =
      (Inr arr, w')"
    by (simp add: get_devices_connected [OF c])
  from array_from_variant_Inr [OF run]
  have pd: "pdata arr = [length (heap w)..<length (heap w) + length paths]" and
    hs: "\<forall>i<length paths. \<exists>props. handle_at w' (length (heap w) + i) =
             Some \<lparr>h_kind = CdDevice, h_object_path = Some (paths ! i), h_properties = Some props\<rparr>"
    by simp_all
  have "\<forall>i<length paths. \<exists>h. handle_at w' (pdata arr ! i) = Some h \<and> bound h
             \<and> h_kind h = CdDevice \<and> h_object_path h = Some (paths ! i)"
  proof (intro allI impI)
    fix i assume i: "i < length paths"
    with hs obtain props where "handle_at w' (length (heap w) + i) =
             Some \<lparr>h_kind = CdDevice, h_object_path = Some (paths ! i), h_properties = Some props\<rparr>"
      by blast
    then show "\<exists>h. handle_at w' (pdata arr ! i) = Some h \<and> bound h
             \<and> h_kind h = CdDevice \<and> h_object_path h = Some (paths ! i)"
      using i by (simp add: pd bound_def)
  qed
  then show ?thesis by (simp add: pd)
qed

lemmas run_defs =
  cd_client_get_devices_sync_def cd_client_get_profiles_sync_def
  cd_client_get_devices_by_kind_sync_def client_priv_def obj_at_def
  call_sync_ao_def quiet_env_def lossy_env_def cd_client_get_device_array_from_variant_def
  cd_client_get_profile_array_from_variant_def
  array_from_variant_def g_ptr_array_new_with_free_func_def new_handle_def g_object_new_def
  set_object_path_sync_def set_payload_def g_ptr_array_add_def g_ptr_array_ref_def
  g_ptr_array_unref_def g_object_unref_def handle_at_def

lemma run_get_devices:
  "cd_client_get_devices_sync quiet_env 0 connected_world =
     (Inr \<lparr>refs = 1, pdata = [1, 2]\<rparr>,
      \<lparr>heap = heap connected_world @
          [bound_cell CdDevice ''/org/d1''
             \<lparr>prop_id = ''/org/d1'', prop_kind = ''display'', prop_title = ''t'',
               prop_filename = None, prop_qualifier = None\<rparr>,
           bound_cell CdDevice ''/org/d2''
             \<lparr>prop_id = ''/org/d2'', prop_kind = ''display'', prop_title = ''t'',
               prop_filename = None, prop_qualifier = None\<rparr>],
       cd_client_object = Some 0,
       trace = [ProxyNew, ProxyCall ''GetDevices'' None,
                SetObjectPath CdDevice ''/org/d1'', SetObjectPath CdDevice ''/org/d2'']\<rparr>)"
  by (simp add: connected_world_eq run_defs bound_cell_def)

theorem list_devices_success_witness:
  "fst (cd_client_get_devices_sync quiet_env 0 connected_world) = Inr \<lparr>refs = 1, pdata = [1, 2]\<rparr>
   \<and> call_paths quiet_env (trace connected_world) ''GetDevices'' None =
        Inr [''/org/d1'', ''/org/d2'']
   \<and> (\<exists>h. handle_at (snd (cd_client_get_devices_sync quiet_env 0 connected_world)) 1 = Some h
          \<and> bound h \<and> h_kind h = CdDevice \<and> h_object_path h = Some ''/org/d1'')
   \<and> (\<exists>h. handle_at (snd (cd_client_get_devices_sync quiet_env 0 connected_world)) 2 = Some h
          \<and> bound h \<and> h_kind h = CdDevice \<and> h_object_path h = Some ''/org/d2'')"
proof -
  let ?r = "cd_client_get_devices_sync quiet_env 0 connected_world"
  have h1: "?r = (Inr \<lparr>refs = 1, pdata = [1, 2]\<rparr>, snd ?r)"
    by (simp add: run_get_devices)
  have h2: "call_paths quiet_env (trace connected_world) ''GetDevices'' None =
        Inr [''/org/d1'', ''/org/d2'']"
    by (simp add: quiet_env_def)
  from list_devices_success [OF h1 h2]
  have "\<forall>i<2. \<exists>h. handle_at (snd ?r) ([1, 2] ! i) = Some h \<and> bound h
             \<and> h_kind h = CdDevice \<and> h_object_path h = Some ([''/org/d1'', ''/org/d2''] ! i)"
    by simp
  from this [rule_format, of 0] this [rule_format, of 1] h1 h2
  show ?thesis by (simp add: run_get_devices)
qed

subsection \<open>The client's own state\<close>

lemma client_priv_append:
  assumes "client_priv w a = Some priv" and "heap w' = heap w @ cells"
  shows "client_priv w' a = Some priv"
  using assms
  by (auto simp: client_priv_def obj_at_def nth_append split: if_splits option.splits)

lemma array_from_variant_extends:
  "\<exists>cells. heap (snd (array_from_variant e k what ps w)) = heap w @ cells"
proof -
  from bind_dichotomy [of e k "trace w" ps] show ?thesis
  proof
    assume "list_all (\<lambda>r. \<not> isl r) (bind_answers e k (trace w) ps)"
    from array_from_variant_success [OF this, of what] show ?thesis by auto
  next
    assume "\<exists>n m. first_bind_failure e k (trace w) ps n m"
    then obtain n m where "first_bind_failure e k (trace w) ps n m" by blast
    from array_from_variant_failure [OF this, of what] show ?thesis by auto
  qed
qed

lemma handle_from_path_extends:
  "\<exists>cells. heap (snd (handle_from_path e k path w)) = heap w @ cells"
  by (cases "fetch_properties e (trace w) k path")
    (simp_all add: handle_from_path_fail handle_from_path_ok)

lemma list_tail_frame:
  assumes "client_priv w client = Some priv"
  shows "client_priv (snd (array_from_variant e k what ps (w\<lparr>trace := t\<rparr>))) client = Some priv"
proof -
  from array_from_variant_extends [of e k what ps "w\<lparr>trace := t\<rparr>"]
  obtain cells where
    "heap (snd (array_from_variant e k what ps (w\<lparr>trace := t\<rparr>))) = heap (w\<lparr>trace := t\<rparr>) @ cells"
    by blast
  moreover from assms have "client_priv (w\<lparr>trace := t\<rparr>) client = Some priv" by simp
  ultimately show ?thesis by (rule client_priv_append [rotated])
qed

lemma path_tail_frame:
  assumes "client_priv w client = Some priv"
  shows "client_priv (snd (handle_from_path e k path (w\<lparr>trace := t\<rparr>))) client = Some priv"
proof -
  from handle_from_path_extends [of e k path "w\<lparr>trace := t\<rparr>"]
  obtain cells where
    "heap (snd (handle_from_path e k path (w\<lparr>trace := t\<rparr>))) = heap (w\<lparr>trace := t\<rparr>) @ cells"
    by blast
  moreover from assms have "client_priv (w\<lparr>trace := t\<rparr>) client = Some priv" by simp
  ultimately show ?thesis by (rule client_priv_append [rotated])
qed

lemma get_devices_frame:
  "client_priv (snd (cd_client_get_devices_sync e client w)) client = client_priv w client"
  by (auto simp: cd_client_get_devices_sync_def call_sync_ao_def
      cd_client_get_device_array_from_variant_def list_tail_frame
      split: option.splits sum.splits)

lemma get_devices_by_kind_frame:
  "client_priv (snd (cd_client_get_devices_by_kind_sync e client kind w)) client = client_priv w client"
  by (auto simp: cd_client_get_devices_by_kind_sync_def call_sync_ao_def
      cd_client_get_device_array_from_variant_def list_tail_frame
      split: option.splits sum.splits)

lemma get_profiles_frame:
  "client_priv (snd (cd_client_get_profiles_sync e client w)) client = client_priv w client"
  by (auto simp: cd_client_get_profiles_sync_def call_sync_ao_def
      cd_client_get_profile_array_from_variant_def list_tail_frame
      split: option.splits sum.splits)

lemma create_device_frame:
  "client_priv (snd (cd_client_create_device_sync e client ident options w)) client =
     client_priv w client"
  by (auto simp: cd_client_create_device_sync_def call_sync_o_def path_tail_frame
      split: option.splits sum.splits)

lemma create_profile_frame:
  "client_priv (snd (cd_client_create_profile_sync e client ident options w)) client =
     client_priv w client"
  by (auto simp: cd_client_create_profile_sync_def call_sync_o_def path_tail_frame
      split: option.splits sum.splits)

lemma find_device_frame:
  "client_priv (snd (cd_client_find_device_sync e client ident w)) client = client_priv w client"
  by (auto simp: cd_client_find_device_sync_def call_sync_o_def path_tail_frame
      split: option.splits sum.splits)

lemma find_profile_frame:
  "client_priv (snd (cd_client_find_profile_sync e client ident w)) client = client_priv w client"
  by (auto simp: cd_client_find_profile_sync_def call_sync_o_def path_tail_frame
      split: option.splits sum.splits)

lemma delete_device_frame:
  "client_priv (snd (cd_client_delete_device_sync e client ident w)) client = client_priv w client"
  by (auto simp: cd_client_delete_device_sync_def call_sync_empty_def
      split: option.splits sum.splits)

lemma delete_profile_frame:
  "client_priv (snd (cd_client_delete_profile_sync e client ident w)) client = client_priv w client"
  by (auto simp: cd_client_delete_profile_sync_def call_sync_empty_def
      split: option.splits sum.splits)

lemma get_daemon_version_frame:
  "client_priv (snd (cd_client_get_daemon_version client w)) client = client_priv w client"
  by (auto simp: cd_client_get_daemon_version_def split: option.splits)

text \<open>
  C10. Each of the ten operations other than connect leaves the private data of the
  client it is called on, that is its transport handle and its cached version, as it
  was, whatever the outcome of the operation.
\<close>

theorem operations_leave_client_state:
  "client_priv (snd (cd_client_get_devices_sync e client w)) client = client_priv w client
   \<and> client_priv (snd (cd_client_get_devices_by_kind_sync e client kind w)) client = client_priv w client
   \<and> client_priv (snd (cd_client_get_profiles_sync e client w)) client = client_priv w client
   \<and> client_priv (snd (cd_client_create_device_sync e client ident options w)) client = client_priv w client
   \<and> client_priv (snd (cd_client_create_profile_sync e client ident options w)) client = client_priv w client
   \<and> client_priv (snd (cd_client_delete_device_sync e client ident w)) client = client_priv w client
   \<and> client_priv (snd (cd_client_delete_profile_sync e client ident w)) client = client_priv w client
   \<and> client_priv (snd (cd_client_find_device_sync e client ident w)) client = client_priv w client
   \<and> client_priv (snd (cd_client_find_profile_sync e client ident w)) client = client_priv w client
   \<and> client_priv (snd (cd_client_get_daemon_version client w)) client = client_priv w client"
  by (simp only: get_devices_frame get_devices_by_kind_frame get_profiles_frame
      create_device_frame create_profile_frame delete_device_frame delete_profile_frame
      find_device_frame find_profile_frame get_daemon_version_frame simp_thms)

theorem operations_leave_client_state_witness:
  "client_priv (snd (cd_client_get_devices_sync lossy_env 0 connected_world)) 0 =
     Some \<lparr>proxy = Some \<lparr>cached_properties = []\<rparr>, daemon_version = None\<rparr>
   \<and> client_priv (snd (cd_client_create_device_sync quiet_env 0 ''epson-9800'' 0 connected_world)) 0 =
     Some \<lparr>proxy = Some \<lparr>cached_properties = []\<rparr>, daemon_version = None\<rparr>
   \<and> client_priv (snd (cd_client_find_device_sync quiet_env 0 ''epson-9800'' fresh_world)) 0 =
     Some cd_client_init"
  using operations_leave_client_state [of lossy_env 0 connected_world]
    operations_leave_client_state [of quiet_env 0 connected_world _ "''epson-9800''" 0]
    operations_leave_client_state [of quiet_env 0 fresh_world _ "''epson-9800''"]
  by (simp add: connected_world_priv fresh_world_priv)

end
